theory Spec2Isabelle
  imports Complex_Main
begin

section \<open>Data model\<close>

text \<open>
  The dashboards hold no data of their own: every handler reads and writes the tables
  of the hosted backend through its client. The tables are modelled as lists of rows
  in insertion order. Amounts are JavaScript numbers; they are modelled as exact
  rationals, so rounding and NaN are outside the model. Dates are day numbers, so
  the conversions between local time and UTC in the date arithmetic are outside the
  model as well; timestamps are integers, keys are naturals.
\<close>

type_synonym money = rat
type_synonym day = int
type_synonym instant = int

text \<open>
  An item object as the handlers read it: the four fields that
  \<^verbatim>\<open>approveEditRequest\<close> copies and \<^verbatim>\<open>updateEditedItem\<close> edits.
\<close>

record line_item =
  item_name :: string
  quantity :: money
  unit_price :: money
  total_price :: money

text \<open>A row of table \<^verbatim>\<open>invoice_items\<close>.\<close>

record invoice_item = line_item +
  invoice_id :: nat

text \<open>A row of table \<^verbatim>\<open>invoices\<close>.\<close>

record invoice =
  inv_id :: nat
  business_id :: nat
  customer_id :: nat
  invoice_number :: instant
  invoice_date :: day
  due_date :: day
  total_amount :: money
  paid_amount :: money
  inv_status :: string
  inv_created_at :: instant
  updated_at :: "instant option"

text \<open>A row of table \<^verbatim>\<open>payments\<close>.\<close>

record payment =
  pay_invoice_id :: nat
  amount :: money
  payment_date :: day
  payment_method :: string

text \<open>A row of table \<^verbatim>\<open>invoice_edit_requests\<close>.\<close>

record edit_request =
  req_id :: nat
  req_invoice_id :: nat
  requested_by :: nat
  original_items :: "line_item list"
  requested_items :: "line_item list"
  req_status :: string
  req_created_at :: instant
  reviewed_at :: "instant option"

text \<open>
  A row of table \<^verbatim>\<open>business_customers\<close>; \<^verbatim>\<open>payment_terms_days\<close> is
  nullable (\<^verbatim>\<open>parseInt\<close> of an empty input is stored as null).
\<close>

record business_customer =
  bc_business_id :: nat
  bc_customer_id :: nat
  credit_limit :: money
  payment_terms_days :: "int option"

record db =
  business_customers :: "business_customer list"
  invoices :: "invoice list"
  invoice_items :: "invoice_item list"
  payments :: "payment list"
  invoice_edit_requests :: "edit_request list"

text \<open>
  An invoice as \<^verbatim>\<open>loadData\<close> returns it: the row with the rows of
  \<^verbatim>\<open>invoice_items\<close> that belong to it embedded as \<^verbatim>\<open>items\<close>.
\<close>

record loaded_invoice =
  row :: invoice
  items :: "line_item list"

text \<open>A row of the invoice form: the three inputs hold text.\<close>

record form_item =
  fi_item_name :: string
  fi_quantity :: string
  fi_unit_price :: string

section \<open>The backend client\<close>

text \<open>
  Modelled from the spec: the backend client (\<^verbatim>\<open>lib/supabase\<close> and the hosted
  platform behind it) is not part of the sources. Following the persistence interface
  of the specification, each call either takes effect as a whole or returns an error
  and changes nothing; which of the two happens is an input of the model, one
  \<open>fault\<close> per call: \<open>None\<close> when the backend accepts the call, \<open>Some msg\<close> when
  it answers with an error of that message. Keys and creation times of inserted rows
  are assigned by the backend and are inputs as well.
\<close>

type_synonym fault = "string option"

text \<open>\<^verbatim>\<open>.single()\<close>: the row when the query matches exactly one, otherwise no data.\<close>

definition single :: "'a list \<Rightarrow> 'a option" where
  "single rows = (case rows of [r] \<Rightarrow> Some r | _ \<Rightarrow> None)"

text \<open>\<^verbatim>\<open>x || d\<close> on a nullable number: null and 0 are falsy.\<close>

definition js_or :: "int option \<Rightarrow> int \<Rightarrow> int" where
  "js_or x d = (case x of None \<Rightarrow> d | Some n \<Rightarrow> if n = 0 then d else n)"

text \<open>\<^verbatim>\<open>x || 0\<close> on a number.\<close>

definition or0 :: "money \<Rightarrow> money" where
  "or0 x = (if x = 0 then 0 else x)"

definition item_of_row :: "invoice_item \<Rightarrow> line_item" where
  "item_of_row r =
     \<lparr>item_name = item_name r, quantity = quantity r,
      unit_price = unit_price r, total_price = total_price r\<rparr>"

text \<open>The stored line items of an invoice, and the invoice row of a key.\<close>

definition items_of :: "db \<Rightarrow> nat \<Rightarrow> invoice_item list" where
  "items_of d i = filter (\<lambda>r. invoice_id r = i) (invoice_items d)"

definition find_invoice :: "db \<Rightarrow> nat \<Rightarrow> invoice option" where
  "find_invoice d i = find (\<lambda>v. inv_id v = i) (invoices d)"

definition find_request :: "db \<Rightarrow> nat \<Rightarrow> edit_request option" where
  "find_request d i = find (\<lambda>r. req_id r = i) (invoice_edit_requests d)"

section \<open>Business dashboard\<close>

text \<open>
  \<^verbatim>\<open>loadData(businessId)\<close>: the invoices of the business, newest first, each with
  its items, and the edit requests that are pending and belong to one of these
  invoices. A query that fails yields no data, which the handler reads as the empty
  list. The result is the pair of lists stored by \<^verbatim>\<open>setInvoices\<close> and
  \<^verbatim>\<open>setEditRequests\<close>.
\<close>

definition invoicesData :: "fault \<Rightarrow> nat \<Rightarrow> db \<Rightarrow> loaded_invoice list" where
  "invoicesData inv_fault businessId d =
     (case inv_fault of
        Some _ \<Rightarrow> []
      | None \<Rightarrow>
          map (\<lambda>v. \<lparr>row = v, items = map item_of_row (items_of d (inv_id v))\<rparr>)
            (sort_key (\<lambda>v. - inv_created_at v)
               (filter (\<lambda>v. business_id v = businessId) (invoices d))))"

definition requestsData :: "fault \<Rightarrow> loaded_invoice list \<Rightarrow> db \<Rightarrow> edit_request list" where
  "requestsData req_fault invs d =
     (case req_fault of
        Some _ \<Rightarrow> []
      | None \<Rightarrow>
          filter (\<lambda>r. req_status r = ''pending'' \<and>
                      req_invoice_id r \<in> set (map (\<lambda>v. inv_id (row v)) invs))
            (invoice_edit_requests d))"

definition loadData ::
  "fault \<Rightarrow> fault \<Rightarrow> nat \<Rightarrow> db \<Rightarrow> loaded_invoice list \<times> edit_request list" where
  "loadData inv_fault req_fault businessId d =
     (let invs = invoicesData inv_fault businessId d
      in (invs, requestsData req_fault invs d))"

text \<open>
  What the two tabs render: a Mark Paid button for each loaded invoice whose status is
  not paid, an Approve and a Reject button for each loaded edit request, with the
  arguments the button passes to its handler.
\<close>

definition markPaidButtons :: "loaded_invoice list \<Rightarrow> (nat \<times> money) list" where
  "markPaidButtons invs =
     map (\<lambda>v. (inv_id (row v), total_amount (row v)))
       (filter (\<lambda>v. inv_status (row v) \<noteq> ''paid'') invs)"

definition approveButtons :: "edit_request list \<Rightarrow> (nat \<times> nat \<times> line_item list) list" where
  "approveButtons reqs = map (\<lambda>r. (req_id r, req_invoice_id r, requested_items r)) reqs"

definition rejectButtons :: "edit_request list \<Rightarrow> nat list" where
  "rejectButtons reqs = map req_id reqs"

text \<open>
  \<^verbatim>\<open>handleCreateInvoice\<close>. \<open>parseFloat\<close> is the JavaScript builtin, a parameter
  here; the form submits only when every number input holds a number. \<open>now\<close> is
  the clock read for the invoice number, \<open>created\<close> and \<open>new_id\<close> are what the
  backend assigns to the new row. The result is the alert shown, if any, and the
  tables afterwards.
\<close>

definition handleCreateInvoice ::
  "(string \<Rightarrow> money) \<Rightarrow> fault \<Rightarrow> fault \<Rightarrow> fault \<Rightarrow> instant \<Rightarrow> instant \<Rightarrow> nat \<Rightarrow>
   nat \<Rightarrow> nat \<Rightarrow> day \<Rightarrow> form_item list \<Rightarrow> db \<Rightarrow> string option \<times> db" where
  "handleCreateInvoice parseFloat bc_fault inv_fault items_fault now created new_id
       business selectedCustomerId invoiceDate invoiceItems d =
     (let total = foldl (\<lambda>sum item.
                    sum + parseFloat (fi_quantity item) * parseFloat (fi_unit_price item))
                  0 invoiceItems;
          bcData = (case bc_fault of
                      Some _ \<Rightarrow> None
                    | None \<Rightarrow> single (filter (\<lambda>r. bc_business_id r = business \<and>
                                            bc_customer_id r = selectedCustomerId)
                                        (business_customers d)));
          paymentTerms = js_or (case bcData of None \<Rightarrow> None
                                | Some r \<Rightarrow> payment_terms_days r) 30;
          dueDate = invoiceDate + paymentTerms
      in case inv_fault of
           Some msg \<Rightarrow> (Some (''Error creating invoice: '' @ msg), d)
         | None \<Rightarrow>
             (let invoice = \<lparr>inv_id = new_id, business_id = business,
                             customer_id = selectedCustomerId, invoice_number = now,
                             invoice_date = invoiceDate, due_date = dueDate,
                             total_amount = total, paid_amount = 0,
                             inv_status = ''sent'', inv_created_at = created,
                             updated_at = None\<rparr>;
                  d1 = d\<lparr>invoices := invoices d @ [invoice]\<rparr>;
                  rows = map (\<lambda>item.
                           \<lparr>item_name = fi_item_name item,
                            quantity = parseFloat (fi_quantity item),
                            unit_price = parseFloat (fi_unit_price item),
                            total_price = parseFloat (fi_quantity item) *
                                          parseFloat (fi_unit_price item),
                            invoice_id = inv_id invoice\<rparr>) invoiceItems
              in case items_fault of
                   Some msg \<Rightarrow> (Some (''Error creating invoice items: '' @ msg), d1)
                 | None \<Rightarrow> (None, d1\<lparr>invoice_items := invoice_items d1 @ rows\<rparr>)))"

text \<open>\<^verbatim>\<open>markAsPaid(invoiceId, totalAmount)\<close>; the result of the payment insert is not read.\<close>

definition markAsPaid ::
  "fault \<Rightarrow> fault \<Rightarrow> day \<Rightarrow> nat \<Rightarrow> money \<Rightarrow> db \<Rightarrow> string option \<times> db" where
  "markAsPaid upd_fault pay_fault today invoiceId totalAmount d =
     (case upd_fault of
        Some msg \<Rightarrow> (Some (''Error: '' @ msg), d)
      | None \<Rightarrow>
          (let d1 = d\<lparr>invoices :=
                        map (\<lambda>v. if inv_id v = invoiceId
                                  then v\<lparr>inv_status := ''paid'', paid_amount := totalAmount\<rparr>
                                  else v) (invoices d)\<rparr>
           in case pay_fault of
                Some _ \<Rightarrow> (None, d1)
              | None \<Rightarrow>
                  (None, d1\<lparr>payments := payments d1 @
                              [\<lparr>pay_invoice_id = invoiceId, amount = totalAmount,
                                payment_date = today, payment_method = ''Manual''\<rparr>]\<rparr>)))"

text \<open>
  \<^verbatim>\<open>approveEditRequest(requestId, invoiceId, requestedItems)\<close>: five backend calls
  in sequence, none of whose results is read (the invoice selected first is not used).
  The clock is read twice, for \<^verbatim>\<open>updated_at\<close> and for \<^verbatim>\<open>reviewed_at\<close>.
\<close>

definition approveEditRequest ::
  "fault \<Rightarrow> fault \<Rightarrow> fault \<Rightarrow> fault \<Rightarrow> instant \<Rightarrow> instant \<Rightarrow> nat \<Rightarrow> nat \<Rightarrow>
   line_item list \<Rightarrow> db \<Rightarrow> db" where
  "approveEditRequest del_fault ins_fault upd_fault rev_fault upd_now now
       requestId invoiceId requestedItems d =
     (let d1 = (case del_fault of
                  Some _ \<Rightarrow> d
                | None \<Rightarrow> d\<lparr>invoice_items :=
                              filter (\<lambda>r. invoice_id r \<noteq> invoiceId) (invoice_items d)\<rparr>);
          d2 = (case ins_fault of
                  Some _ \<Rightarrow> d1
                | None \<Rightarrow> d1\<lparr>invoice_items := invoice_items d1 @
                              map (\<lambda>item.
                                \<lparr>item_name = item_name item, quantity = quantity item,
                                 unit_price = unit_price item,
                                 total_price = total_price item,
                                 invoice_id = invoiceId\<rparr>) requestedItems\<rparr>);
          newTotal = foldl (\<lambda>sum item. sum + total_price item) 0 requestedItems;
          d3 = (case upd_fault of
                  Some _ \<Rightarrow> d2
                | None \<Rightarrow> d2\<lparr>invoices :=
                              map (\<lambda>v. if inv_id v = invoiceId
                                        then v\<lparr>total_amount := newTotal,
                                               updated_at := Some upd_now\<rparr>
                                        else v) (invoices d2)\<rparr>)
      in case rev_fault of
           Some _ \<Rightarrow> d3
         | None \<Rightarrow> d3\<lparr>invoice_edit_requests :=
                       map (\<lambda>r. if req_id r = requestId
                                 then r\<lparr>req_status := ''approved'', reviewed_at := Some now\<rparr>
                                 else r) (invoice_edit_requests d3)\<rparr>)"

text \<open>\<^verbatim>\<open>rejectEditRequest(requestId)\<close>.\<close>

definition rejectEditRequest :: "fault \<Rightarrow> instant \<Rightarrow> nat \<Rightarrow> db \<Rightarrow> db" where
  "rejectEditRequest rev_fault now requestId d =
     (case rev_fault of
        Some _ \<Rightarrow> d
      | None \<Rightarrow> d\<lparr>invoice_edit_requests :=
                    map (\<lambda>r. if req_id r = requestId
                              then r\<lparr>req_status := ''rejected'', reviewed_at := Some now\<rparr>
                              else r) (invoice_edit_requests d)\<rparr>)"

section \<open>Customer dashboard\<close>

text \<open>The Request Edit button is rendered for the loaded invoices that are not paid.\<close>

definition requestEditButtons :: "loaded_invoice list \<Rightarrow> loaded_invoice list" where
  "requestEditButtons invs = filter (\<lambda>v. inv_status (row v) \<noteq> ''paid'') invs"

text \<open>\<^verbatim>\<open>openEditModal(invoice)\<close>: the selected invoice and a copy of its items.\<close>

definition openEditModal :: "loaded_invoice \<Rightarrow> loaded_invoice option \<times> line_item list" where
  "openEditModal invoice = (Some invoice, items invoice)"

text \<open>
  \<^verbatim>\<open>updateEditedItem(index, field, value)\<close>, called by the quantity and the unit
  price inputs. The edited field keeps the text of the input, which denotes the number
  stored here. An index outside the list raises in the handler and leaves the list as
  it was.
\<close>

datatype item_field = Quantity | Unit_price

definition updateEditedItem ::
  "(string \<Rightarrow> money) \<Rightarrow> nat \<Rightarrow> item_field \<Rightarrow> string \<Rightarrow> line_item list \<Rightarrow> line_item list" where
  "updateEditedItem parseFloat index field v editedItems =
     (if index < length editedItems then
        (let item = editedItems ! index;
             item1 = (case field of
                        Quantity \<Rightarrow> item\<lparr>quantity := parseFloat v\<rparr>
                      | Unit_price \<Rightarrow> item\<lparr>unit_price := parseFloat v\<rparr>);
             qty = or0 (quantity item1);
             price = or0 (unit_price item1)
         in editedItems[index := item1\<lparr>total_price := qty * price\<rparr>])
      else editedItems)"

text \<open>
  \<^verbatim>\<open>submitEditRequest\<close>, over the component state it reads: the selected invoice,
  the customer and the edited items.
\<close>

definition submitEditRequest ::
  "fault \<Rightarrow> instant \<Rightarrow> nat \<Rightarrow> loaded_invoice option \<Rightarrow> nat \<Rightarrow> line_item list \<Rightarrow>
   db \<Rightarrow> string option \<times> db" where
  "submitEditRequest ins_fault now new_id selectedInvoice customer editedItems d =
     (case selectedInvoice of
        None \<Rightarrow> (None, d)
      | Some invoice \<Rightarrow>
          (case ins_fault of
             Some msg \<Rightarrow> (Some (''Error submitting request: '' @ msg), d)
           | None \<Rightarrow>
               (Some ''Edit request submitted successfully!'',
                d\<lparr>invoice_edit_requests := invoice_edit_requests d @
                     [\<lparr>req_id = new_id, req_invoice_id = inv_id (row invoice),
                       requested_by = customer, original_items = items invoice,
                       requested_items = editedItems, req_status = ''pending'',
                       req_created_at = now, reviewed_at = None\<rparr>]\<rparr>)))"

text \<open>
  \<^verbatim>\<open>loadData(customerId)\<close> of the customer dashboard, the part stored by
  \<^verbatim>\<open>setInvoices\<close>: the invoices of the customer, newest first, each with its
  items.
\<close>

definition customerInvoicesData :: "fault \<Rightarrow> nat \<Rightarrow> db \<Rightarrow> loaded_invoice list" where
  "customerInvoicesData inv_fault customerId d =
     (case inv_fault of
        Some _ \<Rightarrow> []
      | None \<Rightarrow>
          map (\<lambda>v. \<lparr>row = v, items = map item_of_row (items_of d (inv_id v))\<rparr>)
            (sort_key (\<lambda>v. - inv_created_at v)
               (filter (\<lambda>v. customer_id v = customerId) (invoices d))))"

section \<open>The dashboards as a transition system\<close>

text \<open>
  The handlers read component state. The Mark Paid, Approve and Reject buttons pass
  values of the lists the business dashboard has loaded; \<^verbatim>\<open>submitEditRequest\<close>
  takes no argument and submits the selected invoice and the edited items of the
  customer dashboard. A world is the tables together with the state of the dashboards
  that are open: for a business its id and the loaded invoices and edit requests, for a
  customer the id, the loaded invoices, the selected invoice and the edited items.
\<close>

record business_state =
  bs_business :: nat
  bs_invoices :: "loaded_invoice list"
  bs_requests :: "edit_request list"

record customer_state =
  cs_customer :: nat
  cs_invoices :: "loaded_invoice list"
  cs_selected :: "loaded_invoice option"
  cs_edited :: "line_item list"

record world =
  tables :: db
  businesses :: "business_state list"
  customers :: "customer_state list"

definition empty_world :: world where
  "empty_world =
     \<lparr>tables = \<lparr>business_customers = [], invoices = [], invoice_items = [],
                 payments = [], invoice_edit_requests = []\<rparr>,
      businesses = [], customers = []\<rparr>"

text \<open>
  The worlds the program reaches from empty tables, one rule per event. A load is an
  event of its own: every handler starts one without waiting for it, and the change
  subscriptions start more, so a dashboard may act on lists older than the tables.
  Invoice creation and approval are taken as successful operations: creation with the
  insert of the items accepted and a key that no stored invoice has, approval with
  every write accepted. Marking paid, rejecting and submitting take any fault.
  Registering customers is present only through the rows of
  \<^verbatim>\<open>business_customers\<close>, which may change at will.
\<close>

inductive reachable :: "world \<Rightarrow> bool" where
  start: "reachable empty_world"
| link:
    "reachable w \<Longrightarrow>
     w' = w\<lparr>tables := (tables w)\<lparr>business_customers := bcs\<rparr>\<rparr> \<Longrightarrow> reachable w'"
| business_login:
    "reachable w \<Longrightarrow>
     w' = w\<lparr>businesses := businesses w @
            [\<lparr>bs_business = b, bs_invoices = [], bs_requests = []\<rparr>]\<rparr> \<Longrightarrow>
     reachable w'"
| business_load:
    "reachable w \<Longrightarrow> i < length (businesses w) \<Longrightarrow> s = businesses w ! i \<Longrightarrow>
     w' = w\<lparr>businesses := (businesses w)
            [i := s\<lparr>bs_invoices := fst (loadData f1 f2 (bs_business s) (tables w)),
                    bs_requests := snd (loadData f1 f2 (bs_business s) (tables w))\<rparr>]\<rparr> \<Longrightarrow>
     reachable w'"
| create:
    "reachable w \<Longrightarrow> s \<in> set (businesses w) \<Longrightarrow>
     new_id \<notin> inv_id ` set (invoices (tables w)) \<Longrightarrow>
     w' = w\<lparr>tables := snd (handleCreateInvoice pf bcf invf None now created new_id
            (bs_business s) cust date its (tables w))\<rparr> \<Longrightarrow>
     reachable w'"
| mark_paid:
    "reachable w \<Longrightarrow> s \<in> set (businesses w) \<Longrightarrow>
     (i, t) \<in> set (markPaidButtons (bs_invoices s)) \<Longrightarrow>
     w' = w\<lparr>tables := snd (markAsPaid uf pyf today i t (tables w))\<rparr> \<Longrightarrow>
     reachable w'"
| approve:
    "reachable w \<Longrightarrow> s \<in> set (businesses w) \<Longrightarrow>
     (rid, iid, its) \<in> set (approveButtons (bs_requests s)) \<Longrightarrow>
     w' = w\<lparr>tables := approveEditRequest None None None None t1 t2 rid iid its
            (tables w)\<rparr> \<Longrightarrow>
     reachable w'"
| reject:
    "reachable w \<Longrightarrow> s \<in> set (businesses w) \<Longrightarrow>
     rid \<in> set (rejectButtons (bs_requests s)) \<Longrightarrow>
     w' = w\<lparr>tables := rejectEditRequest rf now rid (tables w)\<rparr> \<Longrightarrow>
     reachable w'"
| customer_login:
    "reachable w \<Longrightarrow>
     w' = w\<lparr>customers := customers w @
            [\<lparr>cs_customer = c, cs_invoices = [], cs_selected = None, cs_edited = []\<rparr>]\<rparr> \<Longrightarrow>
     reachable w'"
| customer_load:
    "reachable w \<Longrightarrow> i < length (customers w) \<Longrightarrow> s = customers w ! i \<Longrightarrow>
     w' = w\<lparr>customers := (customers w)
            [i := s\<lparr>cs_invoices := customerInvoicesData f1 (cs_customer s) (tables w)\<rparr>]\<rparr> \<Longrightarrow>
     reachable w'"
| open_modal:
    "reachable w \<Longrightarrow> i < length (customers w) \<Longrightarrow> s = customers w ! i \<Longrightarrow>
     l \<in> set (requestEditButtons (cs_invoices s)) \<Longrightarrow>
     w' = w\<lparr>customers := (customers w)
            [i := s\<lparr>cs_selected := fst (openEditModal l),
                    cs_edited := snd (openEditModal l)\<rparr>]\<rparr> \<Longrightarrow>
     reachable w'"
| edit_item:
    "reachable w \<Longrightarrow> i < length (customers w) \<Longrightarrow> s = customers w ! i \<Longrightarrow>
     w' = w\<lparr>customers := (customers w)
            [i := s\<lparr>cs_edited := updateEditedItem pf idx fld str (cs_edited s)\<rparr>]\<rparr> \<Longrightarrow>
     reachable w'"
| cancel_modal:
    "reachable w \<Longrightarrow> i < length (customers w) \<Longrightarrow> s = customers w ! i \<Longrightarrow>
     w' = w\<lparr>customers := (customers w)
            [i := s\<lparr>cs_selected := None, cs_edited := []\<rparr>]\<rparr> \<Longrightarrow>
     reachable w'"
| submit:
    "reachable w \<Longrightarrow> i < length (customers w) \<Longrightarrow> s = customers w ! i \<Longrightarrow>
     w' = w\<lparr>tables := snd (submitEditRequest sf now new_id (cs_selected s) (cs_customer s)
                   (cs_edited s) (tables w)),
            customers := (customers w)
              [i := (if sf = None \<and> cs_selected s \<noteq> None
                     then s\<lparr>cs_selected := None, cs_edited := []\<rparr> else s)]\<rparr> \<Longrightarrow>
     reachable w'"

code_pred reachable .

section \<open>Properties of the ledger\<close>

definition line_total :: "invoice_item list \<Rightarrow> money" where
  "line_total rows = sum_list (map (\<lambda>r. quantity r * unit_price r) rows)"

definition price_consistent :: "line_item \<Rightarrow> bool" where
  "price_consistent item = (total_price item = quantity item * unit_price item)"

definition total_consistent :: "db \<Rightarrow> invoice \<Rightarrow> bool" where
  "total_consistent d v = (total_amount v = line_total (items_of d (inv_id v)))"

definition ledger_inv :: "db \<Rightarrow> bool" where
  "ledger_inv d = list_all (total_consistent d) (invoices d)"

section \<open>What every reachable world satisfies\<close>

text \<open>
  The tables keep the totals and the line prices consistent and reference stored
  invoices only; every edit request, stored or listed by a dashboard, carries
  consistent requested items for a stored invoice; every loaded invoice, selected
  invoice and edit form of a customer carries consistent items, and a selected
  invoice was not paid when it was loaded.
\<close>

definition known :: "db \<Rightarrow> nat \<Rightarrow> bool" where
  "known d i = (i \<in> set (map inv_id (invoices d)))"

definition items_ok :: "line_item list \<Rightarrow> bool" where
  "items_ok xs = list_all price_consistent xs"

definition request_ok :: "db \<Rightarrow> edit_request \<Rightarrow> bool" where
  "request_ok d r = (items_ok (requested_items r) \<and> known d (req_invoice_id r))"

definition snapshot_ok :: "db \<Rightarrow> loaded_invoice \<Rightarrow> bool" where
  "snapshot_ok d l = (items_ok (items l) \<and> known d (inv_id (row l)))"

definition row_ok :: "db \<Rightarrow> invoice_item \<Rightarrow> bool" where
  "row_ok d r = (price_consistent (item_of_row r) \<and> known d (invoice_id r))"

definition business_ok :: "db \<Rightarrow> business_state \<Rightarrow> bool" where
  "business_ok d s = list_all (request_ok d) (bs_requests s)"

definition customer_ok :: "db \<Rightarrow> customer_state \<Rightarrow> bool" where
  "customer_ok d s =
     (list_all (snapshot_ok d) (cs_invoices s) \<and>
      (case cs_selected s of
         None \<Rightarrow> True
       | Some l \<Rightarrow> snapshot_ok d l \<and> inv_status (row l) \<noteq> ''paid'') \<and>
      items_ok (cs_edited s))"

definition tables_ok :: "db \<Rightarrow> bool" where
  "tables_ok d =
     (ledger_inv d \<and> list_all (row_ok d) (invoice_items d) \<and>
      list_all (request_ok d) (invoice_edit_requests d))"

definition world_ok :: "world \<Rightarrow> bool" where
  "world_ok w =
     (tables_ok (tables w) \<and> list_all (business_ok (tables w)) (businesses w) \<and>
      list_all (customer_ok (tables w)) (customers w))"

section \<open>Sample data\<close>

text \<open>
  \<^verbatim>\<open>parseFloat\<close> on the text a number input holds in plain decimal notation: an
  optional minus sign, digits, an optional fraction.
\<close>

definition digit_val :: "char \<Rightarrow> nat" where
  "digit_val c = of_char c - 48"

definition parseFloat_decimal :: "string \<Rightarrow> money" where
  "parseFloat_decimal s =
     (let body = (case s of c # t \<Rightarrow> if c = CHR ''-'' then t else s | [] \<Rightarrow> s);
          whole = takeWhile (\<lambda>c. c \<noteq> CHR ''.'') body;
          frac = drop 1 (dropWhile (\<lambda>c. c \<noteq> CHR ''.'') body);
          n = foldl (\<lambda>a c. 10 * a + digit_val c) 0 (whole @ frac);
          v = of_nat n / 10 ^ length frac
      in case s of c # t \<Rightarrow> if c = CHR ''-'' then - v else v | [] \<Rightarrow> v)"

text \<open>
  The scenario of the specification: one invoice of business 1 to customer 1 with the
  single line Widget, 2 at 10, total 20, and a pending request to make it 3 at 10.
\<close>

definition widget2 :: line_item where
  "widget2 = \<lparr>item_name = ''Widget'', quantity = 2, unit_price = 10, total_price = 20\<rparr>"

definition widget3 :: line_item where
  "widget3 = \<lparr>item_name = ''Widget'', quantity = 3, unit_price = 10, total_price = 30\<rparr>"

definition inv1 :: invoice where
  "inv1 = \<lparr>inv_id = 1, business_id = 1, customer_id = 1, invoice_number = 1000,
            invoice_date = 100, due_date = 115, total_amount = 20, paid_amount = 0,
            inv_status = ''sent'', inv_created_at = 1000, updated_at = None\<rparr>"

definition req1 :: edit_request where
  "req1 = \<lparr>req_id = 1, req_invoice_id = 1, requested_by = 1, original_items = [widget2],
            requested_items = [widget3], req_status = ''pending'', req_created_at = 1500,
            reviewed_at = None\<rparr>"

definition db0 :: db where
  "db0 = \<lparr>business_customers =
             [\<lparr>bc_business_id = 1, bc_customer_id = 1, credit_limit = 0,
               payment_terms_days = Some 15\<rparr>],
           invoices = [inv1],
           invoice_items =
             [\<lparr>item_name = ''Widget'', quantity = 2, unit_price = 10, total_price = 20,
               invoice_id = 1\<rparr>],
           payments = [],
           invoice_edit_requests = [req1]\<rparr>"

text \<open>
  Variants of the scenario: the request already rejected, the invoice already paid with
  its payment recorded, and payment terms of 0 days configured for the pair.
\<close>

definition db_reviewed :: db where
  "db_reviewed = db0\<lparr>invoice_edit_requests :=
      [req1\<lparr>req_status := ''rejected'', reviewed_at := Some 1800\<rparr>]\<rparr>"

definition db_paid :: db where
  "db_paid = db0\<lparr>invoices := [inv1\<lparr>inv_status := ''paid'', paid_amount := 20\<rparr>],
      payments := [\<lparr>pay_invoice_id = 1, amount = 20, payment_date = 105,
                    payment_method = ''Manual''\<rparr>]\<rparr>"

definition db_zero_terms :: db where
  "db_zero_terms = db0\<lparr>business_customers :=
      [\<lparr>bc_business_id = 1, bc_customer_id = 1, credit_limit = 0,
        payment_terms_days = Some 0\<rparr>]\<rparr>"

text \<open>
  Worlds of the scenario: after the business has created the invoice; with the
  customer's edit form open on it and the quantity changed to 3; after the customer
  has submitted and the business has loaded the request; after the business has
  approved the request; and with the form still open while the business has loaded
  the invoice and marked it paid.
\<close>

definition snapshot1 :: loaded_invoice where
  "snapshot1 = \<lparr>row = inv1, items = [widget2]\<rparr>"

definition world_invoiced :: world where
  "world_invoiced =
     \<lparr>tables = db0\<lparr>invoice_edit_requests := []\<rparr>,
      businesses = [\<lparr>bs_business = 1, bs_invoices = [], bs_requests = []\<rparr>],
      customers = []\<rparr>"

definition world_form :: world where
  "world_form =
     world_invoiced\<lparr>customers :=
       [\<lparr>cs_customer = 1, cs_invoices = [snapshot1], cs_selected = Some snapshot1,
         cs_edited = [widget3]\<rparr>]\<rparr>"

definition world_submitted :: world where
  "world_submitted =
     \<lparr>tables = db0,
      businesses = [\<lparr>bs_business = 1, bs_invoices = [snapshot1], bs_requests = [req1]\<rparr>],
      customers =
        [\<lparr>cs_customer = 1, cs_invoices = [snapshot1], cs_selected = None,
          cs_edited = []\<rparr>]\<rparr>"

definition world_paid_form :: world where
  "world_paid_form =
     world_form\<lparr>tables := db_paid\<lparr>invoice_edit_requests := []\<rparr>,
       businesses := [\<lparr>bs_business = 1, bs_invoices = [snapshot1], bs_requests = []\<rparr>]\<rparr>"


section \<open>Auxiliary facts about the tables\<close>

lemma foldl_add_sum_list:
  "foldl (\<lambda>s x. s + f x) a xs = (a::rat) + sum_list (map f xs)"
  by (induction xs arbitrary: a) (simp_all add: add.assoc)

lemma filter_key_map:
  "(\<And>x. k (f x) = i) \<Longrightarrow>
   filter (\<lambda>r. k r = j) (map f xs) = (if j = i then map f xs else [])"
  by (induction xs) auto

lemma filter_absent:
  "i \<notin> k ` set xs \<Longrightarrow> filter (\<lambda>r. k r = i) xs = []"
  by (induction xs) auto

lemma filter_filter_other:
  "j \<noteq> i \<Longrightarrow>
   filter (\<lambda>r. k r = j) (filter (\<lambda>r. k r \<noteq> i) xs) = filter (\<lambda>r. k r = j) xs"
  by (induction xs) auto

lemma filter_filter_same:
  "filter (\<lambda>r. k r = i) (filter (\<lambda>r. k r \<noteq> i) xs) = []"
  by (induction xs) auto

lemma find_map_upd:
  "find (\<lambda>r. k r = i) xs = Some r \<Longrightarrow> (\<And>x. k (f x) = k x) \<Longrightarrow>
   find (\<lambda>r. k r = i) (map (\<lambda>x. if k x = i then f x else x) xs) = Some (f r)"
  by (induction xs) (auto split: if_splits)

lemma sum_total_price:
  "list_all price_consistent xs \<Longrightarrow>
   sum_list (map total_price xs) = sum_list (map (\<lambda>x. quantity x * unit_price x) xs)"
  by (induction xs) (simp_all add: price_consistent_def)

lemma find_SomeD_mem:
  "find P xs = Some v \<Longrightarrow> v \<in> set xs \<and> P v"
  by (induction xs) (auto split: if_splits)

lemma list_all_update:
  "list_all P xs \<Longrightarrow> P x \<Longrightarrow> list_all P (xs[i := x])"
  by (induction xs arbitrary: i) (auto split: nat.splits)

section \<open>Effects of the handlers on single rows\<close>

lemma map_item_of_row:
  "map item_of_row (map (\<lambda>item.
      \<lparr>item_name = item_name item, quantity = quantity item, unit_price = unit_price item,
       total_price = total_price item, invoice_id = i\<rparr>) xs) = xs"
  by (induction xs) (simp_all add: item_of_row_def)

lemma approve_items:
  "items_of (approveEditRequest None None upd_fault rev_fault upd_now now requestId invoiceId
      requestedItems d) invoiceId =
   map (\<lambda>item.
      \<lparr>item_name = item_name item, quantity = quantity item, unit_price = unit_price item,
       total_price = total_price item, invoice_id = invoiceId\<rparr>) requestedItems"
  by (simp add: items_of_def approveEditRequest_def Let_def filter_filter_same
      filter_key_map split: option.splits del: filter_filter)

lemma approve_invoice:
  "find_invoice d invoiceId = Some v \<Longrightarrow>
   find_invoice (approveEditRequest del_fault ins_fault None rev_fault upd_now now requestId
      invoiceId requestedItems d) invoiceId =
   Some (v\<lparr>total_amount := sum_list (map total_price requestedItems),
           updated_at := Some upd_now\<rparr>)"
  by (simp add: find_invoice_def approveEditRequest_def Let_def find_map_upd
      foldl_add_sum_list split: option.splits)

lemma approve_request:
  "find_request d requestId = Some r \<Longrightarrow>
   find_request (approveEditRequest del_fault ins_fault upd_fault None upd_now now requestId
      invoiceId requestedItems d) requestId =
   Some (r\<lparr>req_status := ''approved'', reviewed_at := Some now\<rparr>)"
  by (simp add: find_request_def approveEditRequest_def Let_def find_map_upd
      split: option.splits)

lemma approve_request_refused:
  "find_request (approveEditRequest del_fault ins_fault upd_fault (Some e) upd_now now requestId
      invoiceId requestedItems d) requestId = find_request d requestId"
  by (simp add: find_request_def approveEditRequest_def Let_def split: option.splits)

lemma approve_items_lost:
  "items_of (approveEditRequest None (Some b) upd_fault rev_fault upd_now now requestId invoiceId
      requestedItems d) invoiceId = []"
  by (simp add: items_of_def approveEditRequest_def Let_def filter_filter_same
      split: option.splits del: filter_filter)

lemma reject_request:
  "find_request d requestId = Some r \<Longrightarrow>
   find_request (rejectEditRequest None now requestId d) requestId =
   Some (r\<lparr>req_status := ''rejected'', reviewed_at := Some now\<rparr>)"
  by (simp add: find_request_def rejectEditRequest_def find_map_upd)

lemma loadData_pending:
  "r \<in> set (snd (loadData inv_fault req_fault businessId d)) \<Longrightarrow> req_status r = ''pending''"
  by (auto simp: loadData_def requestsData_def Let_def split: option.splits)

text \<open>
  The edit form recomputes \<^verbatim>\<open>total_price\<close> whenever a quantity or a unit price
  is typed, so a list that starts with consistent items stays consistent.
\<close>

lemma updateEditedItem_consistent:
  "list_all price_consistent editedItems \<Longrightarrow>
   list_all price_consistent (updateEditedItem parseFloat index field v editedItems)"
  by (cases field)
    (simp_all add: updateEditedItem_def Let_def or0_def list_all_update price_consistent_def)

section \<open>The total of an invoice and its line items\<close>

lemma create_ledger:
  assumes inv: "ledger_inv d"
    and fresh1: "new_id \<notin> inv_id ` set (invoices d)"
    and fresh2: "new_id \<notin> invoice_id ` set (invoice_items d)"
  shows "ledger_inv (snd (handleCreateInvoice parseFloat bc_fault None None now created new_id
           business customer date invoiceItems d))"
proof -
  let ?d' = "snd (handleCreateInvoice parseFloat bc_fault None None now created new_id
           business customer date invoiceItems d)"
  let ?rows = "map (\<lambda>item.
       \<lparr>item_name = fi_item_name item, quantity = parseFloat (fi_quantity item),
        unit_price = parseFloat (fi_unit_price item),
        total_price = parseFloat (fi_quantity item) * parseFloat (fi_unit_price item),
        invoice_id = new_id\<rparr>) invoiceItems"
  have its: "invoice_items ?d' = invoice_items d @ ?rows"
    by (simp add: handleCreateInvoice_def Let_def)
  obtain v0 where invs: "invoices ?d' = invoices d @ [v0]" and id0: "inv_id v0 = new_id"
    and tot0: "total_amount v0 = line_total ?rows"
    by (simp add: handleCreateInvoice_def Let_def line_total_def foldl_add_sum_list o_def)
  have new: "items_of ?d' new_id = ?rows"
    using fresh2 by (simp add: items_of_def its filter_absent filter_key_map)
  have old: "items_of ?d' j = items_of d j" if "j \<noteq> new_id" for j
    using that by (simp add: items_of_def its filter_key_map)
  have "total_consistent ?d' v" if "v \<in> set (invoices d)" for v
  proof -
    from that fresh1 have "inv_id v \<noteq> new_id" by auto
    moreover from inv that have "total_consistent d v"
      by (simp add: ledger_inv_def list_all_iff)
    ultimately show ?thesis by (simp add: total_consistent_def old)
  qed
  moreover have "total_consistent ?d' v0"
    by (simp add: total_consistent_def id0 tot0 new)
  ultimately show ?thesis
    by (simp add: ledger_inv_def list_all_iff invs)
qed

lemma markPaid_ledger:
  assumes "ledger_inv d"
  shows "ledger_inv (snd (markAsPaid upd_fault pay_fault today invoiceId totalAmount d))"
  using assms
  unfolding ledger_inv_def total_consistent_def items_of_def markAsPaid_def Let_def
  by (auto simp: list_all_iff split: option.splits)

lemma approve_ledger:
  assumes inv: "ledger_inv d" and pc: "list_all price_consistent requestedItems"
  shows "ledger_inv (approveEditRequest None None None None upd_now now requestId invoiceId
           requestedItems d)"
proof -
  let ?d' = "approveEditRequest None None None None upd_now now requestId invoiceId requestedItems d"
  let ?rows = "map (\<lambda>item.
       \<lparr>item_name = item_name item, quantity = quantity item, unit_price = unit_price item,
        total_price = total_price item, invoice_id = invoiceId\<rparr>) requestedItems"
  let ?upd = "\<lambda>v. if inv_id v = invoiceId
       then v\<lparr>total_amount := foldl (\<lambda>sum item. sum + total_price item) 0 requestedItems,
              updated_at := Some upd_now\<rparr> else v"
  have its: "invoice_items ?d' =
      filter (\<lambda>r. invoice_id r \<noteq> invoiceId) (invoice_items d) @ ?rows"
    by (simp add: approveEditRequest_def Let_def)
  have invs: "invoices ?d' = map ?upd (invoices d)"
    by (simp add: approveEditRequest_def Let_def)
  have same: "items_of ?d' invoiceId = ?rows"
    by (simp add: items_of_def its filter_filter_same filter_key_map del: filter_filter)
  have other: "items_of ?d' j = items_of d j" if "j \<noteq> invoiceId" for j
    using that
    by (simp add: items_of_def its filter_filter_other filter_key_map del: filter_filter)
  have tot: "foldl (\<lambda>sum item. sum + total_price item) 0 requestedItems = line_total ?rows"
    using sum_total_price [OF pc] by (simp add: foldl_add_sum_list line_total_def o_def)
  have "total_consistent ?d' (?upd v)" if "v \<in> set (invoices d)" for v
  proof (cases "inv_id v = invoiceId")
    case True
    then show ?thesis by (simp add: total_consistent_def same tot)
  next
    case False
    moreover from inv that have "total_consistent d v"
      by (simp add: ledger_inv_def list_all_iff)
    ultimately show ?thesis by (simp add: total_consistent_def other)
  qed
  then show ?thesis
    unfolding ledger_inv_def invs list_all_iff set_map by blast
qed

section \<open>The invariant of the reachable worlds\<close>

lemmas ok_defs = request_ok_def snapshot_ok_def row_ok_def business_ok_def customer_ok_def
  items_ok_def

lemma ok_mono:
  assumes "\<And>i. known d i \<Longrightarrow> known d' i"
  shows "request_ok d r \<Longrightarrow> request_ok d' r"
    and "snapshot_ok d l \<Longrightarrow> snapshot_ok d' l"
    and "row_ok d x \<Longrightarrow> row_ok d' x"
    and "business_ok d b \<Longrightarrow> business_ok d' b"
    and "customer_ok d c \<Longrightarrow> customer_ok d' c"
  using assms by (auto simp: ok_defs list_all_iff split: option.splits)

lemma sessions_mono:
  assumes "\<And>i. known d i \<Longrightarrow> known d' i"
  shows "list_all (business_ok d) bs \<Longrightarrow> list_all (business_ok d') bs"
    and "list_all (customer_ok d) cs \<Longrightarrow> list_all (customer_ok d') cs"
  using ok_mono(4,5) [OF assms] by (auto simp: list_all_iff)

lemma ledger_inv_cong:
  "invoices d' = invoices d \<Longrightarrow> invoice_items d' = invoice_items d \<Longrightarrow>
   ledger_inv d' = ledger_inv d"
  by (simp add: ledger_inv_def list_all_iff total_consistent_def items_of_def)

lemma known_cong:
  "map inv_id (invoices d') = map inv_id (invoices d) \<Longrightarrow> known d' i = known d i"
  by (simp add: known_def)

lemma map_key_upd:
  "(\<And>v. k (f v) = k v) \<Longrightarrow> map k (map (\<lambda>v. if P v then f v else v) xs) = map k xs"
  by (induction xs) auto

lemma tables_ok_requests:
  assumes "tables_ok d"
    and "map inv_id (invoices d') = map inv_id (invoices d)"
    and "ledger_inv d'"
    and "invoice_items d' = invoice_items d"
    and "\<And>r. r \<in> set (invoice_edit_requests d') \<Longrightarrow> request_ok d r"
  shows "tables_ok d'"
proof -
  have k: "known d' i = known d i" for i by (rule known_cong [OF assms(2)])
  have "row_ok d' x = row_ok d x" for x by (simp add: row_ok_def k)
  moreover have "request_ok d' r = request_ok d r" for r by (simp add: request_ok_def k)
  ultimately show ?thesis
    using assms(1,3,4,5) by (simp add: tables_ok_def list_all_iff)
qed

lemma create_refused:
  "snd (handleCreateInvoice pf bcf (Some m) itf now created new_id b cust date its d) = d"
  by (simp add: handleCreateInvoice_def Let_def)

lemma create_known:
  "known d i \<Longrightarrow>
   known (snd (handleCreateInvoice pf bcf invf itf now created new_id b cust date its d)) i"
  by (cases invf; cases itf) (simp_all add: known_def handleCreateInvoice_def Let_def)

lemma create_tables_ok:
  assumes ok: "tables_ok d" and fresh: "\<not> known d new_id"
  shows "tables_ok (snd (handleCreateInvoice pf bcf invf None now created new_id b cust date
           its d))"
proof (cases invf)
  case (Some m)
  with ok show ?thesis by (simp add: create_refused)
next
  case None
  let ?d' = "snd (handleCreateInvoice pf bcf None None now created new_id b cust date its d)"
  let ?rows = "map (\<lambda>item.
       \<lparr>item_name = fi_item_name item, quantity = pf (fi_quantity item),
        unit_price = pf (fi_unit_price item),
        total_price = pf (fi_quantity item) * pf (fi_unit_price item),
        invoice_id = new_id\<rparr>) its"
  have mono: "known d i \<Longrightarrow> known ?d' i" for i by (rule create_known)
  from ok have rows: "list_all (row_ok d) (invoice_items d)"
    and reqs: "list_all (request_ok d) (invoice_edit_requests d)"
    and led: "ledger_inv d"
    by (simp_all add: tables_ok_def)
  from rows fresh have f2: "new_id \<notin> invoice_id ` set (invoice_items d)"
    by (auto simp: list_all_iff row_ok_def)
  from fresh have f1: "new_id \<notin> inv_id ` set (invoices d)"
    by (simp add: known_def)
  have l: "ledger_inv ?d'"
    by (rule create_ledger [OF led f1 f2])
  have k: "known ?d' new_id"
    by (simp add: known_def handleCreateInvoice_def Let_def)
  have its': "invoice_items ?d' = invoice_items d @ ?rows"
    by (simp add: handleCreateInvoice_def Let_def)
  have new: "row_ok ?d' x" if "x \<in> set ?rows" for x
    using that k by (auto simp: row_ok_def price_consistent_def item_of_row_def)
  have old: "row_ok ?d' x" if "x \<in> set (invoice_items d)" for x
    using that rows ok_mono(3) [of d ?d', OF mono] by (simp add: list_all_iff)
  have r: "list_all (row_ok ?d') (invoice_items ?d')"
    unfolding its' list_all_iff set_append using new old by blast
  have "invoice_edit_requests ?d' = invoice_edit_requests d"
    by (simp add: handleCreateInvoice_def Let_def)
  with reqs ok_mono(1) [of d ?d', OF mono]
  have q: "list_all (request_ok ?d') (invoice_edit_requests ?d')"
    by (simp add: list_all_iff)
  from l r q None show ?thesis by (simp add: tables_ok_def)
qed

lemma markAsPaid_ids:
  "map inv_id (invoices (snd (markAsPaid uf pyf today i t d))) = map inv_id (invoices d)"
  by (cases uf; cases pyf) (simp_all add: markAsPaid_def Let_def map_key_upd)

lemma markAsPaid_frame:
  "invoice_items (snd (markAsPaid uf pyf today i t d)) = invoice_items d"
  "invoice_edit_requests (snd (markAsPaid uf pyf today i t d)) = invoice_edit_requests d"
  by (cases uf; cases pyf; simp add: markAsPaid_def Let_def)+

lemma markAsPaid_tables_ok:
  assumes "tables_ok d"
  shows "tables_ok (snd (markAsPaid uf pyf today i t d))"
proof (rule tables_ok_requests [OF assms markAsPaid_ids _ markAsPaid_frame(1)])
  from assms show "ledger_inv (snd (markAsPaid uf pyf today i t d))"
    by (simp add: tables_ok_def markPaid_ledger)
next
  fix r assume "r \<in> set (invoice_edit_requests (snd (markAsPaid uf pyf today i t d)))"
  with assms show "request_ok d r"
    by (simp add: markAsPaid_frame tables_ok_def list_all_iff)
qed

lemma approve_ids:
  "map inv_id (invoices (approveEditRequest f1 f2 f3 f4 t1 t2 rid iid its d)) =
   map inv_id (invoices d)"
  by (cases f1; cases f2; cases f3; cases f4)
    (simp_all add: approveEditRequest_def Let_def map_key_upd)

lemma approve_tables_ok:
  assumes ok: "tables_ok d" and its: "items_ok its" and k: "known d iid"
  shows "tables_ok (approveEditRequest None None None None t1 t2 rid iid its d)"
proof -
  let ?d' = "approveEditRequest None None None None t1 t2 rid iid its d"
  let ?rows = "map (\<lambda>item.
       \<lparr>item_name = item_name item, quantity = quantity item, unit_price = unit_price item,
        total_price = total_price item, invoice_id = iid\<rparr>) its"
  have kn: "known ?d' i = known d i" for i by (rule known_cong [OF approve_ids])
  from ok have rows: "list_all (row_ok d) (invoice_items d)"
    and reqs: "list_all (request_ok d) (invoice_edit_requests d)"
    and led: "ledger_inv d"
    by (simp_all add: tables_ok_def)
  from its have l: "ledger_inv ?d'"
    by (simp add: items_ok_def approve_ledger [OF led])
  have its': "invoice_items ?d' =
      filter (\<lambda>r. invoice_id r \<noteq> iid) (invoice_items d) @ ?rows"
    by (simp add: approveEditRequest_def Let_def)
  have new: "row_ok ?d' x" if "x \<in> set ?rows" for x
    using that k its
    by (auto simp: row_ok_def kn items_ok_def list_all_iff price_consistent_def
        item_of_row_def)
  have old: "row_ok ?d' x" if "x \<in> set (invoice_items d)" for x
    using that rows by (simp add: list_all_iff row_ok_def kn)
  have r: "list_all (row_ok ?d') (invoice_items ?d')"
    unfolding its' list_all_iff set_append set_filter using new old by blast
  have reqs': "invoice_edit_requests ?d' =
      map (\<lambda>r. if req_id r = rid
                then r\<lparr>req_status := ''approved'', reviewed_at := Some t2\<rparr> else r)
        (invoice_edit_requests d)"
    by (simp add: approveEditRequest_def Let_def)
  have "request_ok ?d' (if req_id x = rid
          then x\<lparr>req_status := ''approved'', reviewed_at := Some t2\<rparr> else x)"
    if "x \<in> set (invoice_edit_requests d)" for x
    using that reqs by (simp add: list_all_iff request_ok_def kn)
  then have q: "list_all (request_ok ?d') (invoice_edit_requests ?d')"
    unfolding reqs' list_all_iff set_map by blast
  from l r q show ?thesis by (simp add: tables_ok_def)
qed

lemma reject_frame:
  "invoices (rejectEditRequest rf now rid d) = invoices d"
  "invoice_items (rejectEditRequest rf now rid d) = invoice_items d"
  by (cases rf; simp add: rejectEditRequest_def)+

lemma reject_tables_ok:
  assumes "tables_ok d"
  shows "tables_ok (rejectEditRequest rf now rid d)"
proof (rule tables_ok_requests [OF assms _ _ reject_frame(2)])
  show "map inv_id (invoices (rejectEditRequest rf now rid d)) = map inv_id (invoices d)"
    by (simp add: reject_frame)
  from assms show "ledger_inv (rejectEditRequest rf now rid d)"
    by (simp add: tables_ok_def ledger_inv_cong [OF reject_frame])
next
  fix r assume r: "r \<in> set (invoice_edit_requests (rejectEditRequest rf now rid d))"
  from assms have ok: "\<And>x. x \<in> set (invoice_edit_requests d) \<Longrightarrow> request_ok d x"
    by (simp add: tables_ok_def list_all_iff)
  show "request_ok d r"
  proof (cases rf)
    case (Some m)
    with r ok show ?thesis by (simp add: rejectEditRequest_def)
  next
    case None
    with r obtain x where "x \<in> set (invoice_edit_requests d)"
      and "r = (if req_id x = rid
                then x\<lparr>req_status := ''rejected'', reviewed_at := Some now\<rparr> else x)"
      by (auto simp: rejectEditRequest_def)
    with ok [of x] show ?thesis by (simp add: request_ok_def)
  qed
qed

lemma submit_frame:
  "invoices (snd (submitEditRequest sf now new_id sel c A d)) = invoices d"
  "invoice_items (snd (submitEditRequest sf now new_id sel c A d)) = invoice_items d"
  by (cases sel; cases sf; simp add: submitEditRequest_def)+

lemma submit_tables_ok:
  assumes "tables_ok d" and "customer_ok d s"
  shows "tables_ok (snd (submitEditRequest sf now new_id (cs_selected s) (cs_customer s)
           (cs_edited s) d))"
proof (rule tables_ok_requests [OF assms(1) _ _ submit_frame(2)])
  let ?d' = "snd (submitEditRequest sf now new_id (cs_selected s) (cs_customer s)
           (cs_edited s) d)"
  show "map inv_id (invoices ?d') = map inv_id (invoices d)"
    by (simp add: submit_frame)
  from assms(1) show "ledger_inv ?d'"
    by (simp add: tables_ok_def ledger_inv_cong [OF submit_frame])
  fix r assume r: "r \<in> set (invoice_edit_requests ?d')"
  from assms(1) have ok: "\<And>x. x \<in> set (invoice_edit_requests d) \<Longrightarrow> request_ok d x"
    by (simp add: tables_ok_def list_all_iff)
  show "request_ok d r"
  proof (cases "cs_selected s")
    case None
    with r ok show ?thesis by (simp add: submitEditRequest_def)
  next
    case (Some l)
    show ?thesis
    proof (cases sf)
      case (Some m)
      with r ok \<open>cs_selected s = Some l\<close> show ?thesis by (simp add: submitEditRequest_def)
    next
      case None
      from assms(2) \<open>cs_selected s = Some l\<close>
      have "items_ok (cs_edited s)" "known d (inv_id (row l))"
        by (simp_all add: customer_ok_def snapshot_ok_def)
      with r ok None \<open>cs_selected s = Some l\<close> show ?thesis
        by (auto simp: submitEditRequest_def request_ok_def)
    qed
  qed
qed

lemma link_tables_ok:
  assumes "tables_ok d"
  shows "tables_ok (d\<lparr>business_customers := bcs\<rparr>)"
proof (rule tables_ok_requests [OF assms])
  show "map inv_id (invoices (d\<lparr>business_customers := bcs\<rparr>)) = map inv_id (invoices d)"
    by simp
  from assms show "ledger_inv (d\<lparr>business_customers := bcs\<rparr>)"
    by (simp add: tables_ok_def ledger_inv_cong [of "d\<lparr>business_customers := bcs\<rparr>" d])
  show "invoice_items (d\<lparr>business_customers := bcs\<rparr>) = invoice_items d"
    by simp
  fix r assume "r \<in> set (invoice_edit_requests (d\<lparr>business_customers := bcs\<rparr>))"
  with assms show "request_ok d r"
    by (simp add: tables_ok_def list_all_iff)
qed

lemma loadData_business_ok:
  assumes "tables_ok d"
  shows "business_ok d (s\<lparr>bs_invoices := fst (loadData f1 f2 b d),
                          bs_requests := snd (loadData f1 f2 b d)\<rparr>)"
proof -
  have "set (snd (loadData f1 f2 b d)) \<subseteq> set (invoice_edit_requests d)"
    by (cases f2) (auto simp: loadData_def requestsData_def Let_def)
  with assms show ?thesis
    by (auto simp: tables_ok_def business_ok_def list_all_iff)
qed

lemma items_of_ok:
  assumes "tables_ok d"
  shows "items_ok (map item_of_row (items_of d i))"
  using assms
  by (simp add: tables_ok_def items_ok_def list_all_iff items_of_def row_ok_def)

lemma customerInvoicesData_ok:
  assumes "tables_ok d"
  shows "list_all (snapshot_ok d) (customerInvoicesData f1 c d)"
proof (cases f1)
  case (Some m)
  then show ?thesis by (simp add: customerInvoicesData_def)
next
  case None
  have "snapshot_ok d \<lparr>row = v, items = map item_of_row (items_of d (inv_id v))\<rparr>"
    if "v \<in> set (invoices d)" for v
    using that items_of_ok [OF assms] by (simp add: snapshot_ok_def known_def)
  with None show ?thesis
    by (simp add: customerInvoicesData_def list_all_iff)
qed

lemma open_modal_ok:
  assumes "list_all (snapshot_ok d) ls" and "l \<in> set (requestEditButtons ls)"
  shows "snapshot_ok d l \<and> inv_status (row l) \<noteq> ''paid''"
  using assms by (simp add: requestEditButtons_def list_all_iff)

lemma approve_button_ok:
  assumes "business_ok d s" and "(rid, iid, its) \<in> set (approveButtons (bs_requests s))"
  shows "items_ok its \<and> known d iid"
  using assms by (auto simp: business_ok_def approveButtons_def list_all_iff request_ok_def)

lemma list_all_nth_update:
  "list_all P xs \<Longrightarrow> (P (xs ! i) \<Longrightarrow> P x) \<Longrightarrow> i < length xs \<Longrightarrow> list_all P (xs[i := x])"
  by (rule list_all_update) (simp_all add: list_all_length)

lemma world_ok_tables_step:
  assumes "world_ok w" and "tables_ok d'"
    and "\<And>i. known (tables w) i \<Longrightarrow> known d' i"
  shows "world_ok (w\<lparr>tables := d'\<rparr>)"
  using assms sessions_mono [of "tables w" d']
  by (simp add: world_ok_def)

lemma world_ok_customer_step:
  assumes "world_ok w" and "i < length (customers w)"
    and "customer_ok (tables w) (customers w ! i) \<Longrightarrow> customer_ok (tables w) s'"
  shows "world_ok (w\<lparr>customers := (customers w)[i := s']\<rparr>)"
  using assms by (simp add: world_ok_def list_all_nth_update)

lemma world_ok_business_step:
  assumes "world_ok w" and "i < length (businesses w)"
    and "business_ok (tables w) (businesses w ! i) \<Longrightarrow> business_ok (tables w) s'"
  shows "world_ok (w\<lparr>businesses := (businesses w)[i := s']\<rparr>)"
  using assms by (simp add: world_ok_def list_all_nth_update)

lemma world_ok_business:
  "world_ok w \<Longrightarrow> s \<in> set (businesses w) \<Longrightarrow> business_ok (tables w) s"
  by (simp add: world_ok_def list_all_iff)

lemma world_ok_customer:
  "world_ok w \<Longrightarrow> i < length (customers w) \<Longrightarrow> customer_ok (tables w) (customers w ! i)"
  by (simp add: world_ok_def list_all_length)

lemma world_ok_tables: "world_ok w \<Longrightarrow> tables_ok (tables w)"
  by (simp add: world_ok_def)

lemma customer_ok_reset:
  "customer_ok d s \<Longrightarrow>
   customer_ok d (if c then s\<lparr>cs_selected := None, cs_edited := []\<rparr> else s)"
  by (simp add: customer_ok_def items_ok_def)

lemma step_link:
  assumes "world_ok w"
  shows "world_ok (w\<lparr>tables := (tables w)\<lparr>business_customers := bcs\<rparr>\<rparr>)"
  by (rule world_ok_tables_step [OF assms link_tables_ok [OF world_ok_tables [OF assms]]])
    (simp add: known_def)

lemma step_business_login:
  assumes "world_ok w"
  shows "world_ok (w\<lparr>businesses := businesses w @
            [\<lparr>bs_business = b, bs_invoices = [], bs_requests = []\<rparr>]\<rparr>)"
  using assms by (simp add: world_ok_def business_ok_def)

lemma step_business_load:
  assumes "world_ok w" and "i < length (businesses w)"
  shows "world_ok (w\<lparr>businesses := (businesses w)
          [i := s\<lparr>bs_invoices := fst (loadData f1 f2 b (tables w)),
                  bs_requests := snd (loadData f1 f2 b (tables w))\<rparr>]\<rparr>)"
  by (rule world_ok_business_step [OF assms])
    (rule loadData_business_ok [OF world_ok_tables [OF assms(1)]])

lemma step_create:
  assumes "world_ok w" and "new_id \<notin> inv_id ` set (invoices (tables w))"
  shows "world_ok (w\<lparr>tables := snd (handleCreateInvoice pf bcf invf None now created new_id
          b cust date its (tables w))\<rparr>)"
proof -
  from assms(2) have fresh: "\<not> known (tables w) new_id"
    by (simp add: known_def)
  show ?thesis
    by (rule world_ok_tables_step [OF assms(1)
          create_tables_ok [OF world_ok_tables [OF assms(1)] fresh]])
      (rule create_known)
qed

lemma step_mark_paid:
  assumes "world_ok w"
  shows "world_ok (w\<lparr>tables := snd (markAsPaid uf pyf today i t (tables w))\<rparr>)"
  by (rule world_ok_tables_step [OF assms
        markAsPaid_tables_ok [OF world_ok_tables [OF assms]]])
    (simp add: known_cong [OF markAsPaid_ids])

lemma step_approve:
  assumes "world_ok w" and "s \<in> set (businesses w)"
    and "(rid, iid, its) \<in> set (approveButtons (bs_requests s))"
  shows "world_ok (w\<lparr>tables := approveEditRequest None None None None t1 t2 rid iid its
          (tables w)\<rparr>)"
proof -
  from approve_button_ok [OF world_ok_business [OF assms(1,2)] assms(3)]
  have b: "items_ok its" "known (tables w) iid" by simp_all
  show ?thesis
    by (rule world_ok_tables_step [OF assms(1)
          approve_tables_ok [OF world_ok_tables [OF assms(1)] b]])
      (simp add: known_cong [OF approve_ids])
qed

lemma step_reject:
  assumes "world_ok w"
  shows "world_ok (w\<lparr>tables := rejectEditRequest rf now rid (tables w)\<rparr>)"
  by (rule world_ok_tables_step [OF assms
        reject_tables_ok [OF world_ok_tables [OF assms]]])
    (simp add: known_def reject_frame)

lemma step_customer_login:
  assumes "world_ok w"
  shows "world_ok (w\<lparr>customers := customers w @
            [\<lparr>cs_customer = c, cs_invoices = [], cs_selected = None, cs_edited = []\<rparr>]\<rparr>)"
  using assms by (simp add: world_ok_def customer_ok_def items_ok_def)

lemma step_customer_load:
  assumes "world_ok w" and "i < length (customers w)"
  shows "world_ok (w\<lparr>customers := (customers w)
          [i := (customers w ! i)\<lparr>cs_invoices := customerInvoicesData f1 c (tables w)\<rparr>]\<rparr>)"
proof (rule world_ok_customer_step [OF assms])
  assume "customer_ok (tables w) (customers w ! i)"
  with customerInvoicesData_ok [OF world_ok_tables [OF assms(1)]]
  show "customer_ok (tables w)
      ((customers w ! i)\<lparr>cs_invoices := customerInvoicesData f1 c (tables w)\<rparr>)"
    by (simp add: customer_ok_def)
qed

lemma step_open_modal:
  assumes "world_ok w" and "i < length (customers w)"
    and "l \<in> set (requestEditButtons (cs_invoices (customers w ! i)))"
  shows "world_ok (w\<lparr>customers := (customers w)
          [i := (customers w ! i)\<lparr>cs_selected := fst (openEditModal l),
                  cs_edited := snd (openEditModal l)\<rparr>]\<rparr>)"
proof (rule world_ok_customer_step [OF assms(1,2)])
  assume c: "customer_ok (tables w) (customers w ! i)"
  then have "list_all (snapshot_ok (tables w)) (cs_invoices (customers w ! i))"
    by (simp add: customer_ok_def)
  from open_modal_ok [OF this assms(3)] c
  show "customer_ok (tables w)
      ((customers w ! i)\<lparr>cs_selected := fst (openEditModal l),
         cs_edited := snd (openEditModal l)\<rparr>)"
    by (simp add: customer_ok_def openEditModal_def snapshot_ok_def)
qed

lemma step_edit_item:
  assumes "world_ok w" and "i < length (customers w)"
  shows "world_ok (w\<lparr>customers := (customers w)
          [i := (customers w ! i)\<lparr>cs_edited :=
             updateEditedItem pf idx fld str (cs_edited (customers w ! i))\<rparr>]\<rparr>)"
proof (rule world_ok_customer_step [OF assms])
  assume "customer_ok (tables w) (customers w ! i)"
  then show "customer_ok (tables w)
      ((customers w ! i)\<lparr>cs_edited :=
         updateEditedItem pf idx fld str (cs_edited (customers w ! i))\<rparr>)"
    by (simp add: customer_ok_def items_ok_def updateEditedItem_consistent)
qed

lemma step_cancel_modal:
  assumes "world_ok w" and "i < length (customers w)"
  shows "world_ok (w\<lparr>customers := (customers w)
          [i := (customers w ! i)\<lparr>cs_selected := None, cs_edited := []\<rparr>]\<rparr>)"
proof (rule world_ok_customer_step [OF assms])
  assume "customer_ok (tables w) (customers w ! i)"
  then show "customer_ok (tables w)
      ((customers w ! i)\<lparr>cs_selected := None, cs_edited := []\<rparr>)"
    by (simp add: customer_ok_def items_ok_def)
qed

lemma step_submit:
  assumes "world_ok w" and "i < length (customers w)" and "s = customers w ! i"
  shows "world_ok (w\<lparr>tables := snd (submitEditRequest sf now new_id (cs_selected s)
                   (cs_customer s) (cs_edited s) (tables w)),
            customers := (customers w)
              [i := (if sf = None \<and> cs_selected s \<noteq> None
                     then s\<lparr>cs_selected := None, cs_edited := []\<rparr> else s)]\<rparr>)"
proof -
  let ?d' = "snd (submitEditRequest sf now new_id (cs_selected s) (cs_customer s)
                   (cs_edited s) (tables w))"
  let ?s' = "if sf = None \<and> cs_selected s \<noteq> None
             then s\<lparr>cs_selected := None, cs_edited := []\<rparr> else s"
  let ?w1 = "w\<lparr>tables := ?d'\<rparr>"
  have c: "customer_ok (tables w) s"
    using world_ok_customer [OF assms(1,2)] assms(3) by simp
  have 1: "world_ok ?w1"
    by (rule world_ok_tables_step [OF assms(1)
          submit_tables_ok [OF world_ok_tables [OF assms(1)] c]])
      (simp add: known_def submit_frame)
  have len: "i < length (customers ?w1)"
    using assms(2) by simp
  have 2: "world_ok (?w1\<lparr>customers := (customers ?w1)[i := ?s']\<rparr>)"
  proof (rule world_ok_customer_step [OF 1 len])
    assume "customer_ok (tables ?w1) (customers ?w1 ! i)"
    with assms(3) have "customer_ok (tables ?w1) s" by simp
    then show "customer_ok (tables ?w1) ?s'" by (rule customer_ok_reset)
  qed
  have "?w1\<lparr>customers := (customers ?w1)[i := ?s']\<rparr> =
      w\<lparr>tables := ?d', customers := (customers w)[i := ?s']\<rparr>"
    by simp
  with 2 show ?thesis by (simp only:)
qed

lemma reachable_world_ok: "reachable w \<Longrightarrow> world_ok w"
proof (induction rule: reachable.induct)
  case start
  show ?case
    by (simp add: empty_world_def world_ok_def tables_ok_def ledger_inv_def)
next
  case (link w w' bcs)
  then show ?case by (simp only: step_link)
next
  case (business_login w w' b)
  then show ?case by (simp only: step_business_login)
next
  case (business_load w i s w' f1 f2)
  then show ?case by (simp only: step_business_load)
next
  case (create w s new_id w' pf bcf invf now created cust date its)
  from step_create [OF create.IH create.hyps(3)] create.hyps(4)
  show ?case by (simp only:)
next
  case (mark_paid w s i t w' uf pyf today)
  then show ?case by (simp only: step_mark_paid)
next
  case (approve w s rid iid its w' t1 t2)
  from step_approve [OF approve.IH approve.hyps(2,3)] approve.hyps(4)
  show ?case by (simp only:)
next
  case (reject w s rid w' rf now)
  then show ?case by (simp only: step_reject)
next
  case (customer_login w w' c)
  then show ?case by (simp only: step_customer_login)
next
  case (customer_load w i s w' f1)
  then show ?case by (simp only: step_customer_load)
next
  case (open_modal w i s l w')
  from step_open_modal [OF open_modal.IH open_modal.hyps(2)] open_modal.hyps(3,4,5)
  show ?case by (simp only:)
next
  case (edit_item w i s w' pf idx fld str)
  then show ?case by (simp only: step_edit_item)
next
  case (cancel_modal w i s w')
  then show ?case by (simp only: step_cancel_modal)
next
  case (submit w i s w' sf now new_id)
  from step_submit [OF submit.IH submit.hyps(2,3)] submit.hyps(4)
  show ?case by (simp only:)
qed

lemma known_find_invoice:
  "known d i \<Longrightarrow> \<exists>v. find_invoice d i = Some v"
  by (cases "find_invoice d i") (auto simp: known_def find_invoice_def find_None_iff)

section \<open>The sample worlds are reachable\<close>

lemmas sample_defs = db0_def db_paid_def inv1_def req1_def widget2_def widget3_def
  snapshot1_def world_invoiced_def world_form_def world_submitted_def world_paid_form_def
  empty_world_def

lemma parseFloat_decimal_samples:
  "parseFloat_decimal ''2'' = 2" "parseFloat_decimal ''3'' = 3"
  "parseFloat_decimal ''10'' = 10"
  by (simp_all add: parseFloat_decimal_def digit_val_def)

lemma reachable_world_invoiced: "reachable world_invoiced"
proof -
  let ?w1 = "empty_world\<lparr>tables := (tables empty_world)\<lparr>business_customers :=
      [\<lparr>bc_business_id = 1, bc_customer_id = 1, credit_limit = 0,
        payment_terms_days = Some 15\<rparr>]\<rparr>\<rparr>"
  let ?s = "\<lparr>bs_business = 1, bs_invoices = [], bs_requests = []\<rparr>"
  let ?w2 = "?w1\<lparr>businesses := businesses ?w1 @ [?s]\<rparr>"
  have 1: "reachable ?w1"
    by (rule reachable.link [OF reachable.start refl])
  have 2: "reachable ?w2"
    by (rule reachable.business_login [OF 1 refl])
  show ?thesis
  proof (rule reachable.create [OF 2, where s = ?s and new_id = 1
        and pf = parseFloat_decimal and bcf = None and invf = None and now = 1000
        and created = 1000 and cust = 1 and date = 100
        and its = "[\<lparr>fi_item_name = ''Widget'', fi_quantity = ''2'',
                      fi_unit_price = ''10''\<rparr>]"])
    show "?s \<in> set (businesses ?w2)" by simp
    show "1 \<notin> inv_id ` set (invoices (tables ?w2))" by (simp add: empty_world_def)
    show "world_invoiced = ?w2\<lparr>tables := snd (handleCreateInvoice parseFloat_decimal None
        None None 1000 1000 1 (bs_business ?s) 1 100
        [\<lparr>fi_item_name = ''Widget'', fi_quantity = ''2'', fi_unit_price = ''10''\<rparr>]
        (tables ?w2))\<rparr>"
      by (simp add: sample_defs handleCreateInvoice_def Let_def single_def js_or_def
          parseFloat_decimal_samples)
  qed
qed

lemma reachable_world_form: "reachable world_form"
proof -
  let ?c0 = "\<lparr>cs_customer = 1, cs_invoices = [], cs_selected = None, cs_edited = []\<rparr>"
  let ?c1 = "?c0\<lparr>cs_invoices := [snapshot1]\<rparr>"
  let ?c2 = "?c1\<lparr>cs_selected := Some snapshot1, cs_edited := [widget2]\<rparr>"
  let ?w1 = "world_invoiced\<lparr>customers := [?c0]\<rparr>"
  let ?w2 = "world_invoiced\<lparr>customers := [?c1]\<rparr>"
  let ?w3 = "world_invoiced\<lparr>customers := [?c2]\<rparr>"
  have 1: "reachable ?w1"
    by (rule reachable.customer_login [OF reachable_world_invoiced, where c = 1])
      (simp add: world_invoiced_def)
  have 2: "reachable ?w2"
    by (rule reachable.customer_load [OF 1, where i = 0 and s = ?c0 and ?f1.0 = None])
      (simp_all add: sample_defs customerInvoicesData_def items_of_def item_of_row_def)
  have 3: "reachable ?w3"
    by (rule reachable.open_modal [OF 2, where i = 0 and s = ?c1 and l = snapshot1])
      (simp_all add: sample_defs requestEditButtons_def openEditModal_def)
  show ?thesis
    by (rule reachable.edit_item [OF 3, where i = 0 and s = ?c2 and pf = parseFloat_decimal
          and idx = 0 and fld = Quantity and str = "''3''"])
      (simp_all add: sample_defs updateEditedItem_def Let_def or0_def
        parseFloat_decimal_samples)
qed


lemma reachable_world_paid_form: "reachable world_paid_form"
proof -
  let ?b = "\<lparr>bs_business = 1, bs_invoices = [], bs_requests = []\<rparr>"
  let ?b1 = "\<lparr>bs_business = 1, bs_invoices = [snapshot1], bs_requests = []\<rparr>"
  let ?w1 = "world_form\<lparr>businesses := [?b1]\<rparr>"
  have 1: "reachable ?w1"
    by (rule reachable.business_load [OF reachable_world_form, where i = 0 and s = ?b
          and ?f1.0 = None and ?f2.0 = None])
      (simp_all add: sample_defs loadData_def invoicesData_def requestsData_def Let_def
        items_of_def item_of_row_def)
  show ?thesis
    by (rule reachable.mark_paid [OF 1, where s = ?b1 and i = 1 and t = 20 and uf = None
          and pyf = None and today = 105])
      (simp_all add: sample_defs markPaidButtons_def markAsPaid_def Let_def)
qed


section \<open>The total of every stored invoice\<close>



section \<open>Approving an edit request\<close>

text \<open>
  C2, as the code has it. Approval is not all-or-nothing: the writes are issued one
  after the other and no result is read. For a request and an invoice that exist: when
  every write is accepted, the items are replaced, the total is the sum of the
  requested \<^verbatim>\<open>total_price\<close> fields and the request is approved; when every write
  is refused, the tables are unchanged; the request becomes approved whenever the status
  write is accepted, whatever happened to the ledger writes, and keeps its row when
  that write is refused; and when the delete is accepted and the insert refused, the
  invoice is left without line items.
\<close>

theorem approveEditRequest_sequential:
  assumes "find_request d requestId = Some r" and "find_invoice d invoiceId = Some v"
  shows
    "items_of (approveEditRequest None None None None upd_now now requestId invoiceId
        requestedItems d) invoiceId =
       map (\<lambda>item.
         \<lparr>item_name = item_name item, quantity = quantity item,
          unit_price = unit_price item, total_price = total_price item,
          invoice_id = invoiceId\<rparr>) requestedItems \<and>
     find_invoice (approveEditRequest None None None None upd_now now requestId invoiceId
        requestedItems d) invoiceId =
       Some (v\<lparr>total_amount := sum_list (map total_price requestedItems),
               updated_at := Some upd_now\<rparr>) \<and>
     find_request (approveEditRequest None None None None upd_now now requestId invoiceId
        requestedItems d) requestId =
       Some (r\<lparr>req_status := ''approved'', reviewed_at := Some now\<rparr>) \<and>
     approveEditRequest (Some a) (Some b) (Some c) (Some e) upd_now now requestId invoiceId
        requestedItems d = d \<and>
     find_request (approveEditRequest del_fault ins_fault upd_fault None upd_now now requestId
        invoiceId requestedItems d) requestId =
       Some (r\<lparr>req_status := ''approved'', reviewed_at := Some now\<rparr>) \<and>
     find_request (approveEditRequest del_fault ins_fault upd_fault (Some e) upd_now now requestId
        invoiceId requestedItems d) requestId = Some r \<and>
     items_of (approveEditRequest None (Some b) upd_fault rev_fault upd_now now requestId invoiceId
        requestedItems d) invoiceId = []"
proof -
  have "approveEditRequest (Some a) (Some b) (Some c) (Some e) upd_now now requestId invoiceId
        requestedItems d = d"
    by (simp add: approveEditRequest_def)
  then show ?thesis
    using assms
    by (simp add: approve_items approve_invoice approve_request approve_request_refused
        approve_items_lost)
qed

text \<open>The scenario of the specification, with every write accepted and with refusals.\<close>

theorem approveEditRequest_sequential_witness:
  "find_request db0 1 = Some req1 \<and> find_invoice db0 1 = Some inv1 \<and>
   items_of (approveEditRequest None None None None 1990 2000 1 1 [widget3] db0) 1 =
     [\<lparr>item_name = ''Widget'', quantity = 3, unit_price = 10, total_price = 30,
       invoice_id = 1\<rparr>] \<and>
   find_invoice (approveEditRequest None None None None 1990 2000 1 1 [widget3] db0) 1 =
     Some (inv1\<lparr>total_amount := 30, updated_at := Some 1990\<rparr>) \<and>
   find_request (approveEditRequest None None None None 1990 2000 1 1 [widget3] db0) 1 =
     Some (req1\<lparr>req_status := ''approved'', reviewed_at := Some 2000\<rparr>) \<and>
   approveEditRequest (Some ''a'') (Some ''b'') (Some ''c'') (Some ''e'') 1990 2000 1 1
     [widget3] db0 = db0 \<and>
   find_request (approveEditRequest None (Some ''b'') None None 1990 2000 1 1 [widget3] db0) 1 =
     Some (req1\<lparr>req_status := ''approved'', reviewed_at := Some 2000\<rparr>) \<and>
   find_request (approveEditRequest None None None (Some ''e'') 1990 2000 1 1 [widget3] db0) 1 =
     Some req1 \<and>
   items_of (approveEditRequest None (Some ''b'') None None 1990 2000 1 1 [widget3] db0) 1 = []"
proof -
  have h1: "find_request db0 1 = Some req1"
    by (simp add: find_request_def db0_def req1_def)
  have h2: "find_invoice db0 1 = Some inv1"
    by (simp add: find_invoice_def db0_def inv1_def)
  have w: "sum_list (map total_price [widget3]) = 30"
    by (simp add: widget3_def)
  have "find_request (approveEditRequest None None None (Some ''e'') 1990 2000 1 1 [widget3] db0) 1 =
     Some req1"
    using approveEditRequest_sequential [OF h1 h2, where del_fault = None
        and ins_fault = None and upd_fault = None and e = "''e''"]
    by simp
  moreover note approveEditRequest_sequential [OF h1 h2, where upd_now = 1990 and now = 2000
        and requestedItems = "[widget3]" and a = "''a''" and b = "''b''" and c = "''c''"
        and e = "''e''" and del_fault = None and ins_fault = "Some ''b''"
        and upd_fault = None and rev_fault = None]
  ultimately show ?thesis
    using h1 h2 w by (simp add: widget3_def)
qed

text \<open>
  C2 as stated fails: when the insert of the replacement items is refused, the invoice
  has lost its line, its total is already 30 and the request is approved.
\<close>

theorem approve_not_atomic_counterexample:
  "items_of db0 1 =
     [\<lparr>item_name = ''Widget'', quantity = 2, unit_price = 10, total_price = 20,
       invoice_id = 1\<rparr>] \<and>
   map total_amount (invoices db0) = [20] \<and>
   map req_status (invoice_edit_requests db0) = [''pending''] \<and>
   items_of (approveEditRequest None (Some ''refused'') None None 1990 2000 1 1 [widget3] db0) 1
     = [] \<and>
   map total_amount
     (invoices (approveEditRequest None (Some ''refused'') None None 1990 2000 1 1
        [widget3] db0)) = [30] \<and>
   map req_status
     (invoice_edit_requests (approveEditRequest None (Some ''refused'') None None 1990 2000 1 1
        [widget3] db0)) = [''approved'']"
  by (simp add: items_of_def approveEditRequest_def db0_def inv1_def req1_def widget3_def)

text \<open>
  C3, as the code has it. \<^verbatim>\<open>approveEditRequest\<close> does not read the status of the
  request. Called for a request that is already approved or rejected, with every write
  accepted, it replaces the line items of the invoice again and sets the status to
  approved with a new review timestamp. Such a request is not in the list that
  \<^verbatim>\<open>loadData\<close> produces, so the dashboard offers no button for it.
\<close>

theorem approve_terminal_request:
  assumes "find_request d requestId = Some r"
    and "req_status r = ''approved'' \<or> req_status r = ''rejected''"
  shows "find_request (approveEditRequest None None None None upd_now now requestId invoiceId
            requestedItems d) requestId =
           Some (r\<lparr>req_status := ''approved'', reviewed_at := Some now\<rparr>) \<and>
         items_of (approveEditRequest None None None None upd_now now requestId invoiceId
            requestedItems d) invoiceId =
           map (\<lambda>item.
             \<lparr>item_name = item_name item, quantity = quantity item,
              unit_price = unit_price item, total_price = total_price item,
              invoice_id = invoiceId\<rparr>) requestedItems \<and>
         r \<notin> set (snd (loadData inv_fault req_fault businessId d))"
proof -
  from assms(2) have "req_status r \<noteq> ''pending''" by auto
  then have "r \<notin> set (snd (loadData inv_fault req_fault businessId d))"
    using loadData_pending by blast
  with assms(1) show ?thesis
    by (simp add: approve_items approve_request)
qed

theorem approve_terminal_request_witness:
  "find_request db_reviewed 1 =
     Some (req1\<lparr>req_status := ''rejected'', reviewed_at := Some 1800\<rparr>) \<and>
   find_request (approveEditRequest None None None None 1990 2000 1 1 [widget3] db_reviewed) 1 =
     Some (req1\<lparr>req_status := ''approved'', reviewed_at := Some 2000\<rparr>) \<and>
   items_of (approveEditRequest None None None None 1990 2000 1 1 [widget3] db_reviewed) 1 =
     [\<lparr>item_name = ''Widget'', quantity = 3, unit_price = 10, total_price = 30,
       invoice_id = 1\<rparr>] \<and>
   req1\<lparr>req_status := ''rejected'', reviewed_at := Some 1800\<rparr>
     \<notin> set (snd (loadData None None 1 db_reviewed))"
proof -
  have h1: "find_request db_reviewed 1 =
      Some (req1\<lparr>req_status := ''rejected'', reviewed_at := Some 1800\<rparr>)"
    by (simp add: find_request_def db_reviewed_def db0_def req1_def)
  have h2: "req_status (req1\<lparr>req_status := ''rejected'', reviewed_at := Some 1800\<rparr>) =
      ''approved'' \<or>
      req_status (req1\<lparr>req_status := ''rejected'', reviewed_at := Some 1800\<rparr>) =
      ''rejected''"
    by simp
  show ?thesis
    using h1 approve_terminal_request [OF h1 h2, where upd_now = 1990 and now = 2000 and invoiceId = 1
        and requestedItems = "[widget3]" and inv_fault = None and req_fault = None
        and businessId = 1]
    by (simp add: widget3_def)
qed

text \<open>
  C3 as stated fails: approving the rejected request turns it into an approved one,
  moves its review timestamp and rewrites the invoice.
\<close>

theorem approve_terminal_counterexample:
  "map req_status (invoice_edit_requests db_reviewed) = [''rejected''] \<and>
   map reviewed_at (invoice_edit_requests db_reviewed) = [Some 1800] \<and>
   map quantity (items_of db_reviewed 1) = [2] \<and>
   map total_amount (invoices db_reviewed) = [20] \<and>
   map req_status (invoice_edit_requests
     (approveEditRequest None None None None 1990 2000 1 1 [widget3] db_reviewed)) =
     [''approved''] \<and>
   map reviewed_at (invoice_edit_requests
     (approveEditRequest None None None None 1990 2000 1 1 [widget3] db_reviewed)) =
     [Some 2000] \<and>
   map quantity (items_of
     (approveEditRequest None None None None 1990 2000 1 1 [widget3] db_reviewed) 1) = [3] \<and>
   map total_amount (invoices
     (approveEditRequest None None None None 1990 2000 1 1 [widget3] db_reviewed)) = [30]"
  by (simp add: items_of_def approveEditRequest_def db_reviewed_def db0_def inv1_def
      req1_def widget3_def)

section \<open>Marking an invoice paid\<close>

text \<open>
  C4, as the code has it. \<^verbatim>\<open>markAsPaid\<close> does not read the status of the invoice.
  Called for an invoice that is already paid, with both writes accepted, it shows no
  alert, stores the amount passed as paid amount, leaves the status paid and appends
  one more payment row. The Mark Paid button is rendered only for loaded invoices whose
  status is not paid.
\<close>

theorem markAsPaid_on_paid_invoice:
  assumes "find_invoice d invoiceId = Some v" and "inv_status v = ''paid''"
  shows "fst (markAsPaid None None today invoiceId totalAmount d) = None \<and>
         payments (snd (markAsPaid None None today invoiceId totalAmount d)) =
           payments d @ [\<lparr>pay_invoice_id = invoiceId, amount = totalAmount,
                           payment_date = today, payment_method = ''Manual''\<rparr>] \<and>
         find_invoice (snd (markAsPaid None None today invoiceId totalAmount d)) invoiceId =
           Some (v\<lparr>paid_amount := totalAmount\<rparr>) \<and>
         set (markPaidButtons invs) =
           (\<lambda>l. (inv_id (row l), total_amount (row l))) `
             {l \<in> set invs. inv_status (row l) \<noteq> ''paid''}"
proof -
  have "v\<lparr>inv_status := ''paid'', paid_amount := totalAmount\<rparr> = v\<lparr>paid_amount := totalAmount\<rparr>"
    using assms(2) by simp
  then show ?thesis
    using assms(1)
    by (simp add: markAsPaid_def Let_def find_invoice_def find_map_upd markPaidButtons_def)
qed

theorem markAsPaid_on_paid_invoice_witness:
  "find_invoice db_paid 1 = Some (inv1\<lparr>inv_status := ''paid'', paid_amount := 20\<rparr>) \<and>
   inv_status (inv1\<lparr>inv_status := ''paid'', paid_amount := 20\<rparr>) = ''paid'' \<and>
   fst (markAsPaid None None 210 1 20 db_paid) = None \<and>
   payments (snd (markAsPaid None None 210 1 20 db_paid)) =
     payments db_paid @ [\<lparr>pay_invoice_id = 1, amount = 20, payment_date = 210,
                            payment_method = ''Manual''\<rparr>] \<and>
   markPaidButtons (fst (loadData None None 1 db_paid)) = []"
proof -
  have h1: "find_invoice db_paid 1 = Some (inv1\<lparr>inv_status := ''paid'', paid_amount := 20\<rparr>)"
    by (simp add: find_invoice_def db_paid_def db0_def inv1_def)
  have h2: "inv_status (inv1\<lparr>inv_status := ''paid'', paid_amount := 20\<rparr>) = ''paid''"
    by simp
  have b: "markPaidButtons (fst (loadData None None 1 db_paid)) = []"
    by (simp add: markPaidButtons_def loadData_def invoicesData_def Let_def
        db_paid_def db0_def inv1_def)
  show ?thesis
    using h1 h2 b markAsPaid_on_paid_invoice [OF h1 h2, where today = 210
        and totalAmount = 20 and invs = "[]"]
    by simp
qed

text \<open>
  C4 as stated fails: marking the paid invoice paid again reports no error and leaves
  two payment rows for it.
\<close>

theorem markAsPaid_twice_counterexample:
  "map inv_status (invoices db_paid) = [''paid''] \<and>
   length (payments db_paid) = 1 \<and>
   fst (markAsPaid None None 210 1 20 db_paid) = None \<and>
   payments (snd (markAsPaid None None 210 1 20 db_paid)) =
     [\<lparr>pay_invoice_id = 1, amount = 20, payment_date = 105, payment_method = ''Manual''\<rparr>,
      \<lparr>pay_invoice_id = 1, amount = 20, payment_date = 210, payment_method = ''Manual''\<rparr>]"
  by (simp add: markAsPaid_def Let_def db_paid_def db0_def inv1_def)

section \<open>Submitting an edit request\<close>

text \<open>
  C5, as the code has it. \<^verbatim>\<open>submitEditRequest\<close> does not read the stored
  invoice. When the stored invoice of the selected snapshot is paid and the insert is
  accepted, it reports success and appends a pending request holding the edited items,
  and the stored invoice stays as it is. A load at this point offers no Request Edit
  button for the paid invoice; the form may still hold a snapshot loaded before the
  payment.
\<close>

theorem submitEditRequest_stored_paid:
  assumes "find_invoice d (inv_id (row selectedInvoice)) = Some v"
    and "inv_status v = ''paid''"
  shows "fst (submitEditRequest None now new_id (Some selectedInvoice) customer
            editedItems d) = Some ''Edit request submitted successfully!'' \<and>
         invoice_edit_requests (snd (submitEditRequest None now new_id
            (Some selectedInvoice) customer editedItems d)) =
           invoice_edit_requests d @
             [\<lparr>req_id = new_id, req_invoice_id = inv_id (row selectedInvoice),
               requested_by = customer, original_items = items selectedInvoice,
               requested_items = editedItems, req_status = ''pending'',
               req_created_at = now, reviewed_at = None\<rparr>] \<and>
         find_invoice (snd (submitEditRequest None now new_id (Some selectedInvoice)
            customer editedItems d)) (inv_id (row selectedInvoice)) = Some v \<and>
         (\<forall>l \<in> set (requestEditButtons (customerInvoicesData inv_fault customerId d)).
            row l \<noteq> v)"
  using assms
  by (auto simp: submitEditRequest_def find_invoice_def requestEditButtons_def)

text \<open>
  The customer opened the form while the invoice was sent; the business has marked it
  paid since.
\<close>

theorem submitEditRequest_stored_paid_witness:
  "find_invoice (tables world_paid_form) (inv_id (row snapshot1)) =
     Some (inv1\<lparr>inv_status := ''paid'', paid_amount := 20\<rparr>) \<and>
   inv_status (inv1\<lparr>inv_status := ''paid'', paid_amount := 20\<rparr>) = ''paid'' \<and>
   inv_status (row snapshot1) = ''sent'' \<and>
   fst (submitEditRequest None 2000 1 (Some snapshot1) 1 [widget3]
     (tables world_paid_form)) = Some ''Edit request submitted successfully!'' \<and>
   map req_status (invoice_edit_requests (snd (submitEditRequest None 2000 1
     (Some snapshot1) 1 [widget3] (tables world_paid_form)))) = [''pending''] \<and>
   requestEditButtons (customerInvoicesData None 1 (tables world_paid_form)) = []"
proof -
  have h1: "find_invoice (tables world_paid_form) (inv_id (row snapshot1)) =
      Some (inv1\<lparr>inv_status := ''paid'', paid_amount := 20\<rparr>)"
    by (simp add: find_invoice_def sample_defs)
  have h2: "inv_status (inv1\<lparr>inv_status := ''paid'', paid_amount := 20\<rparr>) = ''paid''"
    by simp
  have s: "inv_status (row snapshot1) = ''sent''"
    by (simp add: snapshot1_def inv1_def)
  have b: "requestEditButtons (customerInvoicesData None 1 (tables world_paid_form)) = []"
    by (simp add: requestEditButtons_def customerInvoicesData_def sample_defs)
  have e: "invoice_edit_requests (tables world_paid_form) = []"
    by (simp add: sample_defs)
  show ?thesis
    using h1 h2 s b
      submitEditRequest_stored_paid [OF h1 h2, where now = 2000 and new_id = 1
        and customer = 1 and editedItems = "[widget3]" and inv_fault = None
        and customerId = 1]
    by (simp add: e)
qed

text \<open>
  C5 as stated fails, in a world the program reaches: the form is open on the
  snapshot of the sent invoice, the stored invoice is paid, and submitting stores a
  pending request and reports success.
\<close>

theorem submit_on_paid_counterexample:
  "reachable world_paid_form \<and>
   customers world_paid_form =
     [\<lparr>cs_customer = 1, cs_invoices = [snapshot1], cs_selected = Some snapshot1,
       cs_edited = [widget3]\<rparr>] \<and>
   map inv_status (invoices (tables world_paid_form)) = [''paid''] \<and>
   invoice_edit_requests (tables world_paid_form) = [] \<and>
   submitEditRequest None 2000 1 (Some snapshot1) 1 [widget3] (tables world_paid_form) =
   (Some ''Edit request submitted successfully!'',
    (tables world_paid_form)\<lparr>invoice_edit_requests :=
      [\<lparr>req_id = 1, req_invoice_id = 1, requested_by = 1, original_items = [widget2],
        requested_items = [widget3], req_status = ''pending'', req_created_at = 2000,
        reviewed_at = None\<rparr>]\<rparr>)"
proof -
  have "submitEditRequest None 2000 1 (Some snapshot1) 1 [widget3] (tables world_paid_form) =
   (Some ''Edit request submitted successfully!'',
    (tables world_paid_form)\<lparr>invoice_edit_requests :=
      [\<lparr>req_id = 1, req_invoice_id = 1, requested_by = 1, original_items = [widget2],
        requested_items = [widget3], req_status = ''pending'', req_created_at = 2000,
        reviewed_at = None\<rparr>]\<rparr>)"
    by (simp add: submitEditRequest_def sample_defs)
  then show ?thesis
    using reachable_world_paid_form by (simp add: sample_defs)
qed

section \<open>Creating an invoice\<close>

text \<open>
  C6, as the code has it. \<^verbatim>\<open>handleCreateInvoice\<close> validates nothing. For an empty
  item list, or one with a negative quantity or unit price, and both inserts accepted,
  it shows no alert and stores the invoice (status sent, paid amount 0, total the sum
  of quantity times unit price) and one row per item. Its only failure is an error of
  the backend: when the invoice insert is refused, it alerts the backend's message and
  stores nothing.
\<close>

theorem handleCreateInvoice_no_validation:
  assumes "invoiceItems = [] \<or>
           (\<exists>item \<in> set invoiceItems. parseFloat (fi_quantity item) < 0 \<or>
                                       parseFloat (fi_unit_price item) < 0)"
  shows "fst (handleCreateInvoice parseFloat bc_fault None None now created new_id business
            customer date invoiceItems d) = None \<and>
         (\<exists>v. invoices (snd (handleCreateInvoice parseFloat bc_fault None None now created new_id
                  business customer date invoiceItems d)) = invoices d @ [v] \<and>
              inv_id v = new_id \<and> inv_status v = ''sent'' \<and> paid_amount v = 0 \<and>
              total_amount v =
                sum_list (map (\<lambda>item. parseFloat (fi_quantity item) *
                                       parseFloat (fi_unit_price item)) invoiceItems)) \<and>
         invoice_items (snd (handleCreateInvoice parseFloat bc_fault None None now created new_id
            business customer date invoiceItems d)) =
           invoice_items d @
           map (\<lambda>item.
             \<lparr>item_name = fi_item_name item, quantity = parseFloat (fi_quantity item),
              unit_price = parseFloat (fi_unit_price item),
              total_price = parseFloat (fi_quantity item) * parseFloat (fi_unit_price item),
              invoice_id = new_id\<rparr>) invoiceItems \<and>
         handleCreateInvoice parseFloat bc_fault (Some msg) items_fault now created new_id business
            customer date invoiceItems d = (Some (''Error creating invoice: '' @ msg), d)"
  by (simp add: handleCreateInvoice_def Let_def foldl_add_sum_list)

theorem handleCreateInvoice_no_validation_witness:
  "(\<exists>item \<in> set [\<lparr>fi_item_name = ''Widget'', fi_quantity = ''-1'', fi_unit_price = ''5''\<rparr>].
      parseFloat_decimal (fi_quantity item) < 0 \<or>
      parseFloat_decimal (fi_unit_price item) < 0) \<and>
   fst (handleCreateInvoice parseFloat_decimal None None None 2000 2001 2 1 1 200
     [\<lparr>fi_item_name = ''Widget'', fi_quantity = ''-1'', fi_unit_price = ''5''\<rparr>] db0) = None \<and>
   invoice_items (snd (handleCreateInvoice parseFloat_decimal None None None 2000 2001 2 1 1 200
     [\<lparr>fi_item_name = ''Widget'', fi_quantity = ''-1'', fi_unit_price = ''5''\<rparr>] db0)) =
     invoice_items db0 @
     [\<lparr>item_name = ''Widget'', quantity = - 1, unit_price = 5, total_price = - 5,
       invoice_id = 2\<rparr>]"
proof -
  have h: "\<exists>item \<in> set [\<lparr>fi_item_name = ''Widget'', fi_quantity = ''-1'',
                            fi_unit_price = ''5''\<rparr>].
      parseFloat_decimal (fi_quantity item) < 0 \<or>
      parseFloat_decimal (fi_unit_price item) < 0"
    by (simp add: parseFloat_decimal_def digit_val_def)
  have p: "parseFloat_decimal ''-1'' = - 1" "parseFloat_decimal ''5'' = 5"
    by (simp_all add: parseFloat_decimal_def digit_val_def)
  show ?thesis
    using h handleCreateInvoice_no_validation [OF disjI2, OF h, where bc_fault = None
        and now = 2000 and created = 2001 and new_id = 2 and business = 1 and customer = 1 and date = 200
        and d = db0]
    by (simp add: p)
qed

text \<open>
  C6 as stated fails: an item of quantity -1 at 5 yields a stored invoice of total -5
  with its line, and the empty list a stored invoice of total 0; neither raises an
  error.
\<close>

theorem createInvoice_validation_counterexample:
  "handleCreateInvoice parseFloat_decimal None None None 2000 2001 2 1 1 200
     [\<lparr>fi_item_name = ''Widget'', fi_quantity = ''-1'', fi_unit_price = ''5''\<rparr>] db0 =
   (None,
    db0\<lparr>invoices :=
          [inv1,
           \<lparr>inv_id = 2, business_id = 1, customer_id = 1, invoice_number = 2000,
            invoice_date = 200, due_date = 215, total_amount = - 5, paid_amount = 0,
            inv_status = ''sent'', inv_created_at = 2001, updated_at = None\<rparr>],
        invoice_items :=
          [\<lparr>item_name = ''Widget'', quantity = 2, unit_price = 10, total_price = 20,
            invoice_id = 1\<rparr>,
           \<lparr>item_name = ''Widget'', quantity = - 1, unit_price = 5, total_price = - 5,
            invoice_id = 2\<rparr>]\<rparr>) \<and>
   handleCreateInvoice parseFloat_decimal None None None 2000 2001 2 1 1 200 [] db0 =
   (None,
    db0\<lparr>invoices :=
          [inv1,
           \<lparr>inv_id = 2, business_id = 1, customer_id = 1, invoice_number = 2000,
            invoice_date = 200, due_date = 215, total_amount = 0, paid_amount = 0,
            inv_status = ''sent'', inv_created_at = 2001, updated_at = None\<rparr>]\<rparr>)"
proof -
  have p: "parseFloat_decimal ''-1'' = - 1" "parseFloat_decimal ''5'' = 5"
    by (simp_all add: parseFloat_decimal_def digit_val_def)
  show ?thesis
    by (simp add: handleCreateInvoice_def Let_def single_def js_or_def p db0_def)
qed

text \<open>
  The due date is the invoice date plus the payment terms of the single row of the
  pair; a missing row, several rows, a null value and the value 0 all give 30 days.
\<close>

lemma due_date_of_terms:
  "filter (\<lambda>r. bc_business_id r = business \<and> bc_customer_id r = customer)
     (business_customers d) = rows \<Longrightarrow>
   map due_date (invoices (snd (handleCreateInvoice parseFloat None None items_fault now created
      new_id business customer date invoiceItems d))) =
   map due_date (invoices d) @
     [date + (case rows of
                [r] \<Rightarrow> (case payment_terms_days r of
                          None \<Rightarrow> 30 | Some n \<Rightarrow> if n = 0 then 30 else n)
              | _ \<Rightarrow> 30)]"
  by (auto simp: handleCreateInvoice_def Let_def single_def js_or_def
      split: option.splits list.splits)

text \<open>
  C9 at payment terms of 0 days: the invoice dated day 200 is stored with due date
  230, not 200.
\<close>

theorem handleCreateInvoice_zero_terms:
  "map payment_terms_days (business_customers db_zero_terms) = [Some 0] \<and>
   map due_date (invoices (snd (handleCreateInvoice parseFloat_decimal None None None 2000 2001
      2 1 1 200
      [\<lparr>fi_item_name = ''Widget'', fi_quantity = ''2'', fi_unit_price = ''10''\<rparr>]
      db_zero_terms))) = [115, 230]"
  by (simp add: handleCreateInvoice_def Let_def single_def js_or_def db_zero_terms_def
      db0_def inv1_def)

section \<open>Submitting and approving\<close>

text \<open>
  Submitting any list for a stored invoice and approving the stored request: the
  request is listed for the business, the line items become the list, and the total
  becomes the sum of its \<^verbatim>\<open>total_price\<close> fields.
\<close>

lemma round_trip_general:
  assumes "find_invoice d (inv_id (row selectedInvoice)) = Some v"
    and "d1 = snd (submitEditRequest None t1 new_id (Some selectedInvoice) customer A d)"
    and "r = last (invoice_edit_requests d1)"
    and "d2 = approveEditRequest None None None None t_upd t2 (req_id r) (req_invoice_id r)
                (requested_items r) d1"
  shows "r \<in> set (snd (loadData None None (business_id v) d1)) \<and>
         map item_of_row (items_of d2 (inv_id (row selectedInvoice))) = A \<and>
         find_invoice d2 (inv_id (row selectedInvoice)) =
           Some (v\<lparr>total_amount := sum_list (map total_price A), updated_at := Some t_upd\<rparr>) \<and>
         (list_all price_consistent A \<longrightarrow>
            sum_list (map total_price A) =
            sum_list (map (\<lambda>item. quantity item * unit_price item) A))"
proof -
  let ?i = "inv_id (row selectedInvoice)"
  have reqs: "invoice_edit_requests d1 = invoice_edit_requests d @
      [\<lparr>req_id = new_id, req_invoice_id = ?i, requested_by = customer,
        original_items = items selectedInvoice, requested_items = A,
        req_status = ''pending'', req_created_at = t1, reviewed_at = None\<rparr>]"
    and invs: "invoices d1 = invoices d" and its: "invoice_items d1 = invoice_items d"
    by (simp_all add: assms(2) submitEditRequest_def)
  have r: "req_id r = new_id" "req_invoice_id r = ?i" "requested_items r = A"
    "req_status r = ''pending''"
    by (simp_all add: assms(3) reqs)
  have f1: "find_invoice d1 ?i = Some v"
    using assms(1) by (simp add: find_invoice_def invs)
  from assms(1) have mem: "v \<in> set (invoices d)" "inv_id v = ?i"
    using find_SomeD_mem [of "\<lambda>v. inv_id v = ?i" "invoices d" v]
    by (simp_all add: find_invoice_def)
  have "r \<in> set (invoice_edit_requests d1)"
    by (simp add: assms(3) reqs)
  moreover have "?i \<in> inv_id ` {u \<in> set (invoices d1). business_id u = business_id v}"
  proof -
    have "v \<in> {u \<in> set (invoices d1). business_id u = business_id v}"
      using mem(1) by (simp add: invs)
    then have "inv_id v \<in> inv_id ` {u \<in> set (invoices d1). business_id u = business_id v}"
      by (rule imageI)
    then show ?thesis by (simp add: mem(2))
  qed
  ultimately have listed: "r \<in> set (snd (loadData None None (business_id v) d1))"
    using r(2,4)
    by (simp add: loadData_def requestsData_def invoicesData_def Let_def image_image)
  have "items_of d2 ?i = map (\<lambda>item.
      \<lparr>item_name = item_name item, quantity = quantity item, unit_price = unit_price item,
       total_price = total_price item, invoice_id = ?i\<rparr>) A"
    by (simp add: assms(4) r approve_items)
  then have "map item_of_row (items_of d2 ?i) = A"
    by (simp only: map_item_of_row)
  moreover have "find_invoice d2 ?i =
      Some (v\<lparr>total_amount := sum_list (map total_price A), updated_at := Some t_upd\<rparr>)"
    using f1 by (simp add: assms(4) r approve_invoice)
  ultimately show ?thesis
    using listed sum_total_price by blast
qed

text \<open>
  C7. \<^verbatim>\<open>submitEditRequest\<close> takes no argument: the list A it submits is the one
  the edit form holds. In every reachable world, for every customer whose form is open
  on a snapshot \<open>l\<close> with edited items A: the snapshot is of an invoice that was not
  paid when loaded, the invoice is stored, and after submitting (insert accepted) and
  approving the stored request with the arguments of its Approve button (every write
  accepted) the invoice's line items equal A and its total equals the sum over A of
  quantity times unit price.
\<close>

theorem form_round_trip:
  assumes "reachable w" and "s \<in> set (customers w)" and "cs_selected s = Some l"
    and "d1 = snd (submitEditRequest None t1 new_id (cs_selected s) (cs_customer s)
                (cs_edited s) (tables w))"
    and "r = last (invoice_edit_requests d1)"
    and "d2 = approveEditRequest None None None None t_upd t2 (req_id r) (req_invoice_id r)
                (requested_items r) d1"
  shows "inv_status (row l) \<noteq> ''paid'' \<and>
         (\<exists>v. find_invoice (tables w) (inv_id (row l)) = Some v \<and>
              (req_id r, req_invoice_id r, requested_items r)
                \<in> set (approveButtons (snd (loadData None None (business_id v) d1))) \<and>
              find_invoice d2 (inv_id (row l)) =
                Some (v\<lparr>total_amount :=
                          sum_list (map (\<lambda>item. quantity item * unit_price item)
                            (cs_edited s)),
                        updated_at := Some t_upd\<rparr>)) \<and>
         map item_of_row (items_of d2 (inv_id (row l))) = cs_edited s"
proof -
  from reachable_world_ok [OF assms(1)] assms(2)
  have c: "customer_ok (tables w) s"
    by (simp add: world_ok_def list_all_iff)
  with assms(3) have st: "inv_status (row l) \<noteq> ''paid''"
    and k: "known (tables w) (inv_id (row l))"
    and ok: "list_all price_consistent (cs_edited s)"
    by (simp_all add: customer_ok_def snapshot_ok_def items_ok_def)
  from known_find_invoice [OF k] obtain v
    where v: "find_invoice (tables w) (inv_id (row l)) = Some v" ..
  have d1: "d1 = snd (submitEditRequest None t1 new_id (Some l) (cs_customer s)
                (cs_edited s) (tables w))"
    using assms(4) by (simp add: assms(3))
  note g = round_trip_general [OF v d1 assms(5,6)]
  from g have "r \<in> set (snd (loadData None None (business_id v) d1))" by simp
  then have b: "(req_id r, req_invoice_id r, requested_items r)
      \<in> set (approveButtons (snd (loadData None None (business_id v) d1)))"
    by (simp add: approveButtons_def image_iff) blast
  from g sum_total_price [OF ok]
  have t: "find_invoice d2 (inv_id (row l)) =
      Some (v\<lparr>total_amount :=
                sum_list (map (\<lambda>item. quantity item * unit_price item) (cs_edited s)),
              updated_at := Some t_upd\<rparr>)"
    by simp
  from g have i: "map item_of_row (items_of d2 (inv_id (row l))) = cs_edited s" by simp
  from st v b t i show ?thesis by blast
qed

text \<open>The form of the scenario: Widget changed from 2 to 3 at 10, total 30.\<close>

theorem form_round_trip_witness:
  "reachable world_form \<and>
   customers world_form =
     [\<lparr>cs_customer = 1, cs_invoices = [snapshot1], cs_selected = Some snapshot1,
       cs_edited = [widget3]\<rparr>] \<and>
   inv_status (row snapshot1) \<noteq> ''paid'' \<and>
   map item_of_row (items_of
     (approveEditRequest None None None None 1990 2000 1 1 [widget3]
        (snd (submitEditRequest None 1500 1 (Some snapshot1) 1 [widget3]
               (tables world_form)))) 1) = [widget3] \<and>
   find_invoice
     (approveEditRequest None None None None 1990 2000 1 1 [widget3]
        (snd (submitEditRequest None 1500 1 (Some snapshot1) 1 [widget3]
               (tables world_form)))) 1 =
     Some (inv1\<lparr>total_amount := 30, updated_at := Some 1990\<rparr>) \<and>
   sum_list (map (\<lambda>item. quantity item * unit_price item) [widget3]) = 30"
proof -
  let ?s = "\<lparr>cs_customer = 1, cs_invoices = [snapshot1], cs_selected = Some snapshot1,
       cs_edited = [widget3]\<rparr>"
  let ?d1 = "snd (submitEditRequest None 1500 1 (cs_selected ?s) (cs_customer ?s)
       (cs_edited ?s) (tables world_form))"
  let ?r = "last (invoice_edit_requests ?d1)"
  have c: "customers world_form = [?s]"
    by (simp add: world_form_def)
  have m: "?s \<in> set (customers world_form)"
    by (simp add: c)
  have sel: "cs_selected ?s = Some snapshot1"
    by simp
  have r: "req_id ?r = 1" "req_invoice_id ?r = 1" "requested_items ?r = [widget3]"
    by (simp_all add: submitEditRequest_def snapshot1_def inv1_def)
  have i: "inv_id (row snapshot1) = 1"
    by (simp add: snapshot1_def inv1_def)
  have f: "find_invoice (tables world_form) 1 = Some inv1"
    by (simp add: find_invoice_def sample_defs)
  have q: "sum_list (map (\<lambda>item. quantity item * unit_price item) [widget3]) = 30"
    by (simp add: widget3_def)
  note t = form_round_trip [OF reachable_world_form m sel refl refl refl,
      where ?t1.0 = 1500 and new_id = 1 and t_upd = 1990 and ?t2.0 = 2000]
  from t have "inv_status (row snapshot1) \<noteq> ''paid''" by simp
  moreover from t have "map item_of_row (items_of
     (approveEditRequest None None None None 1990 2000 1 1 [widget3]
        (snd (submitEditRequest None 1500 1 (Some snapshot1) 1 [widget3]
               (tables world_form)))) 1) = [widget3]"
    unfolding r i by simp
  moreover have "find_invoice
     (approveEditRequest None None None None 1990 2000 1 1 [widget3]
        (snd (submitEditRequest None 1500 1 (Some snapshot1) 1 [widget3]
               (tables world_form)))) 1 =
     Some (inv1\<lparr>total_amount := 30, updated_at := Some 1990\<rparr>)"
  proof -
    from t obtain v where v: "find_invoice (tables world_form) (inv_id (row snapshot1)) = Some v"
      and tv: "find_invoice
        (approveEditRequest None None None None 1990 2000 (req_id ?r) (req_invoice_id ?r)
           (requested_items ?r) ?d1) (inv_id (row snapshot1)) =
        Some (v\<lparr>total_amount :=
                  sum_list (map (\<lambda>item. quantity item * unit_price item) (cs_edited ?s)),
                updated_at := Some 1990\<rparr>)"
      by blast
    have "v = inv1" using v f unfolding i by simp
    with tv show ?thesis unfolding r i by (simp add: widget3_def)
  qed
  ultimately show ?thesis
    using reachable_world_form c q by simp
qed

section \<open>Rejecting an edit request\<close>

text \<open>
  C8. Rejecting a pending edit request sets its status to rejected and its review
  timestamp when the backend accepts the write, and never touches invoices, line
  items or payments.
\<close>

theorem rejectEditRequest_frame:
  "find_request d requestId = Some r \<Longrightarrow> req_status r = ''pending'' \<Longrightarrow>
   find_request (rejectEditRequest None now requestId d) requestId =
     Some (r\<lparr>req_status := ''rejected'', reviewed_at := Some now\<rparr>) \<and>
   invoices (rejectEditRequest rev_fault now requestId d) = invoices d \<and>
   invoice_items (rejectEditRequest rev_fault now requestId d) = invoice_items d \<and>
   payments (rejectEditRequest rev_fault now requestId d) = payments d"
  by (auto simp: find_request_def rejectEditRequest_def find_map_upd split: option.splits)

theorem rejectEditRequest_frame_witness:
  "find_request db0 1 = Some req1 \<and> req_status req1 = ''pending'' \<and>
   find_request (rejectEditRequest None 2000 1 db0) 1 =
     Some (req1\<lparr>req_status := ''rejected'', reviewed_at := Some 2000\<rparr>) \<and>
   invoices (rejectEditRequest None 2000 1 db0) = invoices db0 \<and>
   invoice_items (rejectEditRequest None 2000 1 db0) = invoice_items db0 \<and>
   payments (rejectEditRequest None 2000 1 db0) = payments db0"
proof -
  have h1: "find_request db0 1 = Some req1"
    by (simp add: find_request_def db0_def req1_def)
  have h2: "req_status req1 = ''pending''"
    by (simp add: req1_def)
  show ?thesis
    using rejectEditRequest_frame [where now = 2000 and rev_fault = None, OF h1 h2] h1 h2
    by simp
qed

section \<open>The list of edit requests\<close>

text \<open>
  C10. When both queries succeed, the edit requests that \<^verbatim>\<open>loadData\<close> produces
  are exactly the stored requests that are pending and whose invoice is one of the
  business's invoices. Whatever the queries do, every listed request is pending in the
  tables, and the Approve and Reject buttons are rendered for listed requests only.
  The handlers themselves check nothing: given the key of a request of any status,
  approval sets it to approved and rejection to rejected.
\<close>

theorem loadData_pending_filter:
  "set (snd (loadData None None businessId d)) =
     {r \<in> set (invoice_edit_requests d).
        req_status r = ''pending'' \<and>
        req_invoice_id r \<in> inv_id ` {v \<in> set (invoices d). business_id v = businessId}} \<and>
   set (snd (loadData inv_fault req_fault businessId d)) \<subseteq>
     {r \<in> set (invoice_edit_requests d). req_status r = ''pending''} \<and>
   set (rejectButtons (snd (loadData inv_fault req_fault businessId d))) \<subseteq>
     req_id ` {r \<in> set (invoice_edit_requests d). req_status r = ''pending''} \<and>
   fst ` set (approveButtons (snd (loadData inv_fault req_fault businessId d))) \<subseteq>
     req_id ` {r \<in> set (invoice_edit_requests d). req_status r = ''pending''} \<and>
   (find_request d requestId = Some r \<longrightarrow>
      find_request (approveEditRequest del_fault ins_fault upd_fault None upd_now now requestId
        invoiceId requestedItems d) requestId =
        Some (r\<lparr>req_status := ''approved'', reviewed_at := Some now\<rparr>) \<and>
      find_request (rejectEditRequest None now requestId d) requestId =
        Some (r\<lparr>req_status := ''rejected'', reviewed_at := Some now\<rparr>))"
proof -
  have ids: "set (map (\<lambda>v. inv_id (row v)) (invoicesData None businessId d)) =
      inv_id ` {v \<in> set (invoices d). business_id v = businessId}"
    by (simp add: invoicesData_def image_image)
  have a: "set (snd (loadData None None businessId d)) =
     {r \<in> set (invoice_edit_requests d).
        req_status r = ''pending'' \<and>
        req_invoice_id r \<in> inv_id ` {v \<in> set (invoices d). business_id v = businessId}}"
    unfolding loadData_def Let_def snd_conv requestsData_def option.case set_filter ids ..
  have b: "set (snd (loadData inv_fault req_fault businessId d)) \<subseteq>
     {r \<in> set (invoice_edit_requests d). req_status r = ''pending''}"
    by (cases req_fault) (auto simp: loadData_def requestsData_def Let_def)
  from b have c: "set (rejectButtons (snd (loadData inv_fault req_fault businessId d))) \<subseteq>
     req_id ` {r \<in> set (invoice_edit_requests d). req_status r = ''pending''}"
    unfolding rejectButtons_def set_map by (rule image_mono)
  have "fst ` set (approveButtons reqs) = req_id ` set reqs" for reqs
    by (simp add: approveButtons_def image_image)
  with b have e: "fst ` set (approveButtons (snd (loadData inv_fault req_fault businessId d)))
     \<subseteq> req_id ` {r \<in> set (invoice_edit_requests d). req_status r = ''pending''}"
    by (simp add: image_mono)
  show ?thesis
    by (intro conjI impI a b c e approve_request reject_request; assumption)
qed

theorem loadData_pending_filter_witness:
  "snd (loadData None None 1 db0) = [req1] \<and>
   snd (loadData None None 1 db_reviewed) = [] \<and>
   find_request db_reviewed 1 =
     Some (req1\<lparr>req_status := ''rejected'', reviewed_at := Some 1800\<rparr>) \<and>
   find_request (approveEditRequest None None None None 1990 2000 1 1 [widget3] db_reviewed) 1 =
     Some (req1\<lparr>req_status := ''approved'', reviewed_at := Some 2000\<rparr>) \<and>
   find_request (rejectEditRequest None 2000 1 db_reviewed) 1 =
     Some (req1\<lparr>req_status := ''rejected'', reviewed_at := Some 2000\<rparr>)"
proof -
  have h: "find_request db_reviewed 1 =
      Some (req1\<lparr>req_status := ''rejected'', reviewed_at := Some 1800\<rparr>)"
    by (simp add: find_request_def db_reviewed_def db0_def req1_def)
  have l: "snd (loadData None None 1 db0) = [req1]"
    "snd (loadData None None 1 db_reviewed) = []"
    by (simp_all add: loadData_def requestsData_def invoicesData_def Let_def
        db_reviewed_def db0_def inv1_def req1_def)
  show ?thesis
    using h l loadData_pending_filter [where d = db_reviewed and requestId = 1
        and r = "req1\<lparr>req_status := ''rejected'', reviewed_at := Some 1800\<rparr>"
        and upd_now = 1990 and now = 2000 and del_fault = None and ins_fault = None and upd_fault = None
        and invoiceId = 1 and requestedItems = "[widget3]"]
    by simp
qed

end
